theory Spec2Isabelle
  imports Complex_Main
begin

section \<open>Arkanoid simulation core: entities, collision detection, collision pass\<close>

text \<open>
  The JavaScript sources are embedded function by function. A JavaScript \<open>Number\<close> that
  holds a coordinate, a speed or a time is a \<^typ>\<open>real\<close> (rounding, NaN and the infinities are
  outside the model); a counter (\<open>hits\<close>, \<open>score\<close>, \<open>bricksDestroyed\<close>) is an \<^typ>\<open>int\<close>.
  An object mutated in place becomes a record that the function returns updated. Fields that
  only the renderer reads (\<open>PowerUp.color\<close>, \<open>PowerUp.letter\<close>, \<open>PowerUp.spawnTime\<close>,
  \<open>Paddle.color\<close>, \<open>Paddle.borderColor\<close>) are left out; \<open>Brick.color\<close> is kept since
  \<open>Brick.hit\<close> rewrites it.
\<close>

subsection \<open>constants.js\<close>

definition CANVAS_WIDTH :: real where "CANVAS_WIDTH = 1920"
definition CANVAS_HEIGHT :: real where "CANVAS_HEIGHT = 1080"

definition PADDLE_WIDTH :: real where "PADDLE_WIDTH = 120"
definition PADDLE_HEIGHT :: real where "PADDLE_HEIGHT = 20"
definition PADDLE_Y_POSITION :: real where "PADDLE_Y_POSITION = 60"
definition PADDLE_SPEED :: real where "PADDLE_SPEED = 400"

definition BALL_SIZE :: real where "BALL_SIZE = 8"
definition BASE_SPEED :: real where "BASE_SPEED = 400"
definition MAX_SPEED :: real where "MAX_SPEED = 800"

definition BRICK_WIDTH :: real where "BRICK_WIDTH = 188"
definition BRICK_HEIGHT :: real where "BRICK_HEIGHT = 48"

definition POWERUP_WIDTH :: real where "POWERUP_WIDTH = 24"
definition POWERUP_HEIGHT :: real where "POWERUP_HEIGHT = 12"
definition POWERUP_SPEED :: real where "POWERUP_SPEED = 150"
definition DROP_CHANCE :: real where "DROP_CHANCE = 2 / 10"
definition POWERUP_DURATION :: real where "POWERUP_DURATION = 10000"

definition ENEMY_WIDTH :: real where "ENEMY_WIDTH = 40"
definition ENEMY_HEIGHT :: real where "ENEMY_HEIGHT = 40"
definition ENEMY_SPEED :: real where "ENEMY_SPEED = 80"
definition APPEAR_DELAY :: real where "APPEAR_DELAY = 30000"

definition MAX_BOUNCE_ANGLE :: real where "MAX_BOUNCE_ANGLE = pi / 3"

definition BRICK_COLORS :: "string list" where
  "BRICK_COLORS = [''#8B00FF'', ''#FF0000'', ''#FF7F00'', ''#FFFF00'', ''#00FF00'', ''#0000FF'']"

definition INDESTRUCTIBLE_COLOR :: string where "INDESTRUCTIBLE_COLOR = ''#666666''"

datatype ball_state = ATTACHED | LAUNCHED | CAUGHT_BALL

datatype powerup_type = EXTEND | SLOW | MULTIBALL | LASER | UNDEFINED_TYPE

datatype powerup_state = SPAWNED | FALLING | CAUGHT | EXPIRED

text \<open>\<open>Object.values(POWERUP_TYPES)\<close>, in declaration order.\<close>

definition POWERUP_TYPES :: "powerup_type list" where
  "POWERUP_TYPES = [EXTEND, SLOW, MULTIBALL, LASER]"

subsection \<open>The built-in \<open>Math.atan2\<close> over the reals\<close>

text \<open>
  \<open>Math.atan2(y, x)\<close> is the angle of the point \<open>(x, y)\<close> in \<open>(-\<pi>, \<pi>]\<close>, and \<open>0\<close> at the
  origin.
\<close>

definition atan2 :: "real \<Rightarrow> real \<Rightarrow> real" where
  "atan2 y x =
     (if 0 < x then arctan (y / x)
      else if x < 0 then (if 0 \<le> y then arctan (y / x) + pi else arctan (y / x) - pi)
      else if 0 < y then pi / 2
      else if y < 0 then - (pi / 2)
      else 0)"

subsection \<open>Bounding boxes and collision records\<close>

record rect =
  x :: real
  y :: real
  width :: real
  height :: real

record circle =
  x :: real
  y :: real
  radius :: real

datatype side = Top | Bottom | Left | Right

text \<open>The object \<open>{collided: true, side, dx, dy, distance}\<close>; \<open>null\<close> is \<open>None\<close>.\<close>

record rect_collision =
  side :: side
  dx :: real
  dy :: real
  distance :: real

text \<open>The object \<open>{collided: true, angle, hitPosition}\<close>; \<open>null\<close> is \<open>None\<close>.\<close>

record paddle_collision =
  angle :: real
  hitPosition :: real

subsection \<open>collision.js: detection primitives\<close>

definition checkAABB :: "rect \<Rightarrow> rect \<Rightarrow> bool" where
  "checkAABB rect1 rect2 \<longleftrightarrow>
     rect.x rect1 < rect.x rect2 + rect.width rect2 \<and>
     rect.x rect1 + rect.width rect1 > rect.x rect2 \<and>
     rect.y rect1 < rect.y rect2 + rect.height rect2 \<and>
     rect.y rect1 + rect.height rect1 > rect.y rect2"

definition checkCircleRect :: "circle \<Rightarrow> rect \<Rightarrow> rect_collision option" where
  "checkCircleRect c r =
     (let closestX = max (rect.x r) (min (circle.x c) (rect.x r + rect.width r));
          closestY = max (rect.y r) (min (circle.y c) (rect.y r + rect.height r));
          ddx = circle.x c - closestX;
          ddy = circle.y c - closestY;
          dist = sqrt (ddx * ddx + ddy * ddy)
      in if dist < radius c then
           (let overlapX = radius c - \<bar>ddx\<bar>;
                overlapY = radius c - \<bar>ddy\<bar>;
                s = (if circle.y c < rect.y r then Top
                     else if circle.y c > rect.y r + rect.height r then Bottom
                     else if circle.x c < rect.x r then Left
                     else if circle.x c > rect.x r + rect.width r then Right
                     else if overlapX < overlapY then
                       (if circle.x c < rect.x r + rect.width r / 2 then Left else Right)
                     else
                       (if circle.y c < rect.y r + rect.height r / 2 then Top else Bottom))
            in Some \<lparr>side = s, rect_collision.dx = ddx, rect_collision.dy = ddy,
                     distance = dist\<rparr>)
         else None)"

text \<open>The last branch of the side selection is reached exactly when the centre is inside.\<close>

definition centerInside :: "circle \<Rightarrow> rect \<Rightarrow> bool" where
  "centerInside c r \<longleftrightarrow>
     \<not> circle.y c < rect.y r \<and> \<not> circle.y c > rect.y r + rect.height r \<and>
     \<not> circle.x c < rect.x r \<and> \<not> circle.x c > rect.x r + rect.width r"

subsection \<open>brick.js\<close>

datatype brick_type = Single | Double | Triple | Indestructible | OtherType

record brick =
  x :: real
  y :: real
  width :: real
  height :: real
  type :: brick_type
  active :: bool
  hits :: int
  maxHits :: int
  color :: string
  score :: int
  indestructible :: bool

definition initType :: "brick_type \<Rightarrow> brick \<Rightarrow> brick" where
  "initType t b =
     (case t of
        Single \<Rightarrow> b\<lparr>hits := 1, maxHits := 1, color := BRICK_COLORS ! 0,
                     score := 10, indestructible := False\<rparr>
      | Double \<Rightarrow> b\<lparr>hits := 2, maxHits := 2, color := BRICK_COLORS ! 4,
                     score := 20, indestructible := False\<rparr>
      | Triple \<Rightarrow> b\<lparr>hits := 3, maxHits := 3, color := BRICK_COLORS ! 5,
                     score := 30, indestructible := False\<rparr>
      | Indestructible \<Rightarrow> b\<lparr>hits := - 1, maxHits := - 1, color := INDESTRUCTIBLE_COLOR,
                     score := 0, indestructible := True\<rparr>
      | OtherType \<Rightarrow> b\<lparr>hits := 1, maxHits := 1, color := BRICK_COLORS ! 0,
                     score := 10, indestructible := False\<rparr>)"

definition Brick :: "real \<Rightarrow> real \<Rightarrow> brick_type \<Rightarrow> brick" where
  "Brick bx by t =
     initType t \<lparr>brick.x = bx, brick.y = by, brick.width = BRICK_WIDTH,
                 brick.height = BRICK_HEIGHT, type = t, active = True, hits = 0, maxHits = 0,
                 color = [], score = 0, indestructible = False\<rparr>"

text \<open>
  \<open>BRICK_COLORS[i]\<close> is \<open>undefined\<close> beyond the palette; the index is never negative
  because of \<open>Math.max(0, colorIndex)\<close>.
\<close>

definition updateColor :: "brick \<Rightarrow> brick" where
  "updateColor b =
     (if indestructible b then b
      else
        (let colorIndex = \<lfloor>(real_of_int (hits b) / real_of_int (maxHits b))
                             * real (length BRICK_COLORS - 1)\<rfloor>;
             i = nat (max 0 colorIndex)
         in b\<lparr>color := (if i < length BRICK_COLORS then BRICK_COLORS ! i else ''undefined'')\<rparr>))"

text \<open>\<open>hit()\<close> returns the flag \<open>destroyed\<close> together with the mutated brick.\<close>

definition hit :: "brick \<Rightarrow> bool \<times> brick" where
  "hit b =
     (if indestructible b then (False, b)
      else
        (let b1 = b\<lparr>hits := hits b - 1\<rparr>;
             b2 = updateColor b1
         in if hits b2 \<le> 0 then (True, b2\<lparr>active := False\<rparr>) else (False, b2)))"

definition Brick_getBounds :: "brick \<Rightarrow> rect" where
  "Brick_getBounds b =
     \<lparr>rect.x = brick.x b, rect.y = brick.y b, rect.width = brick.width b,
      rect.height = brick.height b\<rparr>"

definition canDropPowerUp :: "brick \<Rightarrow> bool" where
  "canDropPowerUp b \<longleftrightarrow> \<not> indestructible b \<and> active b"

subsection \<open>ball.js\<close>

record ball =
  x :: real
  y :: real
  size :: real
  baseSpeed :: real
  speed :: real
  dx :: real
  dy :: real
  state :: ball_state
  trail :: "(real \<times> real) list"
  maxTrailLength :: nat
  active :: bool

definition Ball :: "real \<Rightarrow> real \<Rightarrow> ball" where
  "Ball bx by =
     \<lparr>ball.x = bx, ball.y = by, size = BALL_SIZE, baseSpeed = BASE_SPEED, speed = BASE_SPEED,
      ball.dx = 0, ball.dy = 0, ball.state = ATTACHED, trail = [], maxTrailLength = 10,
      ball.active = True\<rparr>"

definition Ball_reset :: "real \<Rightarrow> real \<Rightarrow> ball \<Rightarrow> ball" where
  "Ball_reset bx by b =
     b\<lparr>ball.x := bx, ball.y := by, ball.dx := 0, ball.dy := 0, speed := baseSpeed b,
       ball.state := ATTACHED, trail := [], ball.active := True\<rparr>"

definition launch :: "real \<Rightarrow> ball \<Rightarrow> ball" where
  "launch a b =
     (if ball.state b \<noteq> ATTACHED then b
      else b\<lparr>ball.state := LAUNCHED, ball.dx := sin a * speed b,
             ball.dy := - cos a * speed b\<rparr>)"

definition launchStraight :: "ball \<Rightarrow> ball" where
  "launchStraight b = launch 0 b"

text \<open>
  \<open>Ball.update\<close>: past the early return the method runs its statements in a row, and
  each is a function of its own here: "Store trail position" is \<open>storeTrail\<close>, "Move ball"
  is \<open>moveBall\<close>, the two tests under "Wall collisions" are \<open>sideWalls\<close> and \<open>topWall\<close>,
  and "Check if ball fell below screen" is \<open>fellBelow\<close>.
\<close>

definition storeTrail :: "ball \<Rightarrow> ball" where
  "storeTrail b =
     (let t1 = trail b @ [(ball.x b, ball.y b)]
      in b\<lparr>trail := (if length t1 > maxTrailLength b then tl t1 else t1)\<rparr>)"

definition moveBall :: "real \<Rightarrow> ball \<Rightarrow> ball" where
  "moveBall deltaTime b =
     b\<lparr>ball.x := ball.x b + ball.dx b * deltaTime, ball.y := ball.y b + ball.dy b * deltaTime\<rparr>"

definition sideWalls :: "ball \<Rightarrow> ball" where
  "sideWalls b =
     (if ball.x b \<le> size b / 2
      then b\<lparr>ball.x := size b / 2, ball.dx := \<bar>ball.dx b\<bar>\<rparr>
      else if ball.x b \<ge> CANVAS_WIDTH - size b / 2
      then b\<lparr>ball.x := CANVAS_WIDTH - size b / 2, ball.dx := - \<bar>ball.dx b\<bar>\<rparr>
      else b)"

definition topWall :: "ball \<Rightarrow> ball" where
  "topWall b =
     (if ball.y b \<le> size b / 2
      then b\<lparr>ball.y := size b / 2, ball.dy := \<bar>ball.dy b\<bar>\<rparr>
      else b)"

definition fellBelow :: "ball \<Rightarrow> ball" where
  "fellBelow b = (if ball.y b > CANVAS_HEIGHT + size b then b\<lparr>ball.active := False\<rparr> else b)"

definition Ball_update :: "real \<Rightarrow> ball \<Rightarrow> ball" where
  "Ball_update deltaTime b =
     (if ball.state b \<noteq> LAUNCHED then b
      else fellBelow (topWall (sideWalls (moveBall deltaTime (storeTrail b)))))"

definition setVelocityAngle :: "real \<Rightarrow> ball \<Rightarrow> ball" where
  "setVelocityAngle a b = b\<lparr>ball.dx := sin a * speed b, ball.dy := - cos a * speed b\<rparr>"

definition increaseSpeed :: "real \<Rightarrow> ball \<Rightarrow> ball" where
  "increaseSpeed multiplier b =
     (let currentAngle = atan2 (ball.dy b) (ball.dx b);
          b1 = b\<lparr>speed := min (speed b * multiplier) MAX_SPEED\<rparr>
      in b1\<lparr>ball.dx := sin (currentAngle + pi / 2) * speed b1,
            ball.dy := - cos (currentAngle + pi / 2) * speed b1\<rparr>)"

definition Ball_getBounds :: "ball \<Rightarrow> rect" where
  "Ball_getBounds b =
     \<lparr>rect.x = ball.x b - size b / 2, rect.y = ball.y b - size b / 2,
      rect.width = size b, rect.height = size b\<rparr>"

subsection \<open>paddle.js\<close>

record paddle =
  width :: real
  height :: real
  x :: real
  y :: real
  speed :: real
  baseWidth :: real
  hasLaser :: bool
  laserTimer :: real

definition Paddle :: paddle where
  "Paddle =
     \<lparr>paddle.width = PADDLE_WIDTH, paddle.height = PADDLE_HEIGHT,
      paddle.x = CANVAS_WIDTH / 2 - PADDLE_WIDTH / 2,
      paddle.y = CANVAS_HEIGHT - PADDLE_Y_POSITION, paddle.speed = PADDLE_SPEED,
      baseWidth = PADDLE_WIDTH, hasLaser = False, laserTimer = 0\<rparr>"

definition Paddle_reset :: "paddle \<Rightarrow> paddle" where
  "Paddle_reset p =
     (let p1 = p\<lparr>paddle.width := baseWidth p\<rparr>
      in p1\<lparr>paddle.x := CANVAS_WIDTH / 2 - paddle.width p1 / 2, hasLaser := False,
            laserTimer := 0\<rparr>)"

definition move :: "real \<Rightarrow> real \<Rightarrow> paddle \<Rightarrow> paddle" where
  "move direction deltaTime p =
     (if direction = 0 then p
      else
        (let p1 = p\<lparr>paddle.x := paddle.x p + direction * paddle.speed p * deltaTime\<rparr>
         in p1\<lparr>paddle.x := max 0 (min (CANVAS_WIDTH - paddle.width p1) (paddle.x p1))\<rparr>))"

definition moveTo :: "real \<Rightarrow> paddle \<Rightarrow> paddle" where
  "moveTo targetX p =
     (let p1 = p\<lparr>paddle.x := targetX - paddle.width p / 2\<rparr>
      in p1\<lparr>paddle.x := max 0 (min (CANVAS_WIDTH - paddle.width p1) (paddle.x p1))\<rparr>)"

text \<open>
  \<open>extend(duration)\<close> widens the paddle at once and hands a callback to \<open>setTimeout\<close>.
  The synchronous part is \<open>Paddle_extend\<close>; the callback, run by the host after
  \<open>duration\<close> milliseconds, is \<open>Paddle_extend_timeout\<close>.
\<close>

definition Paddle_extend :: "real \<Rightarrow> paddle \<Rightarrow> paddle" where
  "Paddle_extend duration p = p\<lparr>paddle.width := baseWidth p * (3 / 2)\<rparr>"

definition Paddle_extend_timeout :: "paddle \<Rightarrow> paddle" where
  "Paddle_extend_timeout p =
     (let p1 = p\<lparr>paddle.width := baseWidth p\<rparr>
      in p1\<lparr>paddle.x := min (paddle.x p1) (CANVAS_WIDTH - paddle.width p1)\<rparr>)"

definition enableLaser :: "real \<Rightarrow> paddle \<Rightarrow> paddle" where
  "enableLaser duration p = p\<lparr>hasLaser := True, laserTimer := duration\<rparr>"

definition Paddle_update :: "real \<Rightarrow> paddle \<Rightarrow> paddle" where
  "Paddle_update deltaTime p =
     (if hasLaser p then
        (let p1 = p\<lparr>laserTimer := laserTimer p - deltaTime\<rparr>
         in if laserTimer p1 \<le> 0 then p1\<lparr>hasLaser := False\<rparr> else p1)
      else p)"

definition getHitPosition :: "paddle \<Rightarrow> real \<Rightarrow> real" where
  "getHitPosition p ballX =
     (let relativeX = (ballX - paddle.x p) / paddle.width p
      in (relativeX - 1 / 2) * 2)"

definition Paddle_getBounds :: "paddle \<Rightarrow> rect" where
  "Paddle_getBounds p =
     \<lparr>rect.x = paddle.x p, rect.y = paddle.y p, rect.width = paddle.width p,
      rect.height = paddle.height p\<rparr>"

definition getLaserPositions :: "paddle \<Rightarrow> (real \<times> real) list" where
  "getLaserPositions p =
     (if \<not> hasLaser p then []
      else [(paddle.x p + 5, paddle.y p), (paddle.x p + paddle.width p - 5, paddle.y p)])"

text \<open>The paddle invariant of the specification.\<close>

definition paddleInBounds :: "paddle \<Rightarrow> bool" where
  "paddleInBounds p \<longleftrightarrow> 0 \<le> paddle.x p \<and> paddle.x p \<le> CANVAS_WIDTH - paddle.width p"

subsection \<open>powerup.js\<close>

record powerUp =
  x :: real
  y :: real
  width :: real
  height :: real
  type :: powerup_type
  speed :: real
  state :: powerup_state
  active :: bool
  effectApplied :: bool

definition PowerUp :: "real \<Rightarrow> real \<Rightarrow> powerup_type \<Rightarrow> powerUp" where
  "PowerUp px py t =
     \<lparr>powerUp.x = px, powerUp.y = py, powerUp.width = POWERUP_WIDTH,
      powerUp.height = POWERUP_HEIGHT, powerUp.type = t, powerUp.speed = POWERUP_SPEED,
      powerUp.state = FALLING, powerUp.active = True, effectApplied = False\<rparr>"

definition PowerUp_update :: "real \<Rightarrow> powerUp \<Rightarrow> powerUp" where
  "PowerUp_update deltaTime u =
     (if powerUp.state u \<noteq> FALLING then u
      else
        (let u1 = u\<lparr>powerUp.y := powerUp.y u + powerUp.speed u * deltaTime\<rparr>
         in if powerUp.y u1 > CANVAS_HEIGHT
            then u1\<lparr>powerUp.state := EXPIRED, powerUp.active := False\<rparr> else u1))"

definition checkPaddleCollision :: "powerUp \<Rightarrow> rect \<Rightarrow> bool" where
  "checkPaddleCollision u paddleBounds \<longleftrightarrow>
     powerUp.x u < rect.x paddleBounds + rect.width paddleBounds \<and>
     powerUp.x u + powerUp.width u > rect.x paddleBounds \<and>
     powerUp.y u < rect.y paddleBounds + rect.height paddleBounds \<and>
     powerUp.y u + powerUp.height u > rect.y paddleBounds"

subsection \<open>enemy.js\<close>

text \<open>
  \<open>Date.now()\<close> is the parameter \<open>now\<close> of the functions that read the clock, and
  \<open>Math.random()\<close> the parameter \<open>r\<close> (one parameter for each call, in call order);
  \<open>disappearTime = null\<close> is \<open>None\<close>.
\<close>

record enemy =
  x :: real
  y :: real
  width :: real
  height :: real
  speed :: real
  dx :: real
  dy :: real
  active :: bool
  visible :: bool
  appearTime :: real
  disappearTime :: "real option"
  direction :: int
  animationFrame :: int
  animationTimer :: real

definition Enemy :: "real \<Rightarrow> real \<Rightarrow> real \<Rightarrow> enemy" where
  "Enemy now ex ey =
     \<lparr>enemy.x = ex, enemy.y = ey, enemy.width = ENEMY_WIDTH, enemy.height = ENEMY_HEIGHT,
      enemy.speed = ENEMY_SPEED, enemy.dx = ENEMY_SPEED, enemy.dy = 0, enemy.active = True,
      visible = True, appearTime = now, disappearTime = None, direction = 1,
      animationFrame = 0, animationTimer = 0\<rparr>"

definition appear :: "real \<Rightarrow> real \<Rightarrow> enemy \<Rightarrow> enemy" where
  "appear now r e =
     e\<lparr>visible := True, appearTime := now, disappearTime := Some (now + 15000 + r * 10000)\<rparr>"

definition disappear :: "enemy \<Rightarrow> enemy" where
  "disappear e = e\<lparr>visible := False, disappearTime := None\<rparr>"

definition shouldAppear :: "real \<Rightarrow> enemy \<Rightarrow> bool" where
  "shouldAppear now e \<longleftrightarrow> \<not> visible e \<and> now - appearTime e \<ge> APPEAR_DELAY"

text \<open>\<open>this.disappearTime &&\<close> is false for \<open>null\<close> and for the number \<open>0\<close>.\<close>

definition shouldDisappear :: "real \<Rightarrow> enemy \<Rightarrow> bool" where
  "shouldDisappear now e \<longleftrightarrow>
     visible e \<and> (case disappearTime e of None \<Rightarrow> False | Some t \<Rightarrow> t \<noteq> 0 \<and> now \<ge> t)"

definition Enemy_update :: "real \<Rightarrow> real \<Rightarrow> real \<Rightarrow> enemy \<Rightarrow> enemy" where
  "Enemy_update now r deltaTime e =
     (if \<not> visible e then (if shouldAppear now e then appear now r e else e)
      else if shouldDisappear now e then disappear e
      else
        (let e1 = e\<lparr>enemy.x := enemy.x e + enemy.dx e * deltaTime\<rparr>;
             e2 = (if enemy.x e1 \<le> 0
                   then e1\<lparr>enemy.x := 0, enemy.dx := \<bar>enemy.dx e1\<bar>, direction := 1\<rparr>
                   else if enemy.x e1 + enemy.width e1 \<ge> CANVAS_WIDTH
                   then e1\<lparr>enemy.x := CANVAS_WIDTH - enemy.width e1,
                           enemy.dx := - \<bar>enemy.dx e1\<bar>, direction := - 1\<rparr>
                   else e1);
             e3 = e2\<lparr>animationTimer := animationTimer e2 + deltaTime * 1000\<rparr>
         in if animationTimer e3 > 200
            then e3\<lparr>animationFrame := (animationFrame e3 + 1) mod 4, animationTimer := 0\<rparr>
            else e3))"

text \<open>\<open>Enemy.hit\<close>: "Hit by laser", returns \<open>true\<close> ("destroyed").\<close>

definition Enemy_hit :: "enemy \<Rightarrow> bool \<times> enemy" where
  "Enemy_hit e = (True, e\<lparr>enemy.active := False\<rparr>)"

definition deflectBall :: "real \<Rightarrow> real \<Rightarrow> enemy \<Rightarrow> ball \<Rightarrow> ball" where
  "deflectBall r1 r2 e b =
     (if \<not> visible e \<or> \<not> ball.active b then b
      else
        (let a = (30 + r1 * 30) * (pi / 180);
             d = (if r2 < 1 / 2 then 1 else - 1)
         in b\<lparr>ball.dx := sin a * ball.speed b * d, ball.dy := - \<bar>cos a * ball.speed b\<bar>\<rparr>))"

definition checkLaserCollision :: "real \<Rightarrow> real \<Rightarrow> enemy \<Rightarrow> bool" where
  "checkLaserCollision laserX laserY e \<longleftrightarrow>
     (if \<not> visible e then False
      else laserX \<ge> enemy.x e \<and> laserX \<le> enemy.x e + enemy.width e \<and>
           laserY \<ge> enemy.y e \<and> laserY \<le> enemy.y e + enemy.height e)"

definition checkBallCollision :: "enemy \<Rightarrow> ball \<Rightarrow> bool" where
  "checkBallCollision e b \<longleftrightarrow>
     (if \<not> visible e then False
      else
        (let ballBounds = Ball_getBounds b
         in enemy.x e < rect.x ballBounds + rect.width ballBounds \<and>
            enemy.x e + enemy.width e > rect.x ballBounds \<and>
            enemy.y e < rect.y ballBounds + rect.height ballBounds \<and>
            enemy.y e + enemy.height e > rect.y ballBounds))"

subsection \<open>collision.js: entity pairs\<close>

definition checkBallBrick :: "ball \<Rightarrow> brick \<Rightarrow> rect_collision option" where
  "checkBallBrick b k =
     (if \<not> brick.active k then None
      else checkCircleRect \<lparr>circle.x = ball.x b, circle.y = ball.y b, radius = size b / 2\<rparr>
             (Brick_getBounds k))"

definition checkBallPaddle :: "ball \<Rightarrow> paddle \<Rightarrow> paddle_collision option" where
  "checkBallPaddle b p =
     (if \<not> checkAABB (Ball_getBounds b) (Paddle_getBounds p) then None
      else if ball.dy b \<le> 0 then None
      else
        (let hitPos = getHitPosition p (ball.x b);
             maxAngle = MAX_BOUNCE_ANGLE;
             bounceAngle = hitPos * maxAngle
         in Some \<lparr>angle = bounceAngle, hitPosition = hitPos\<rparr>))"

definition checkBallEnemy :: "ball \<Rightarrow> enemy \<Rightarrow> bool" where
  "checkBallEnemy b e = checkBallCollision e b"

definition checkPowerUpPaddle :: "powerUp \<Rightarrow> paddle \<Rightarrow> bool" where
  "checkPowerUpPaddle u p = checkPaddleCollision u (Paddle_getBounds p)"

definition checkLaserEnemy :: "real \<Rightarrow> real \<Rightarrow> enemy \<Rightarrow> bool" where
  "checkLaserEnemy laserX laserY e = checkLaserCollision laserX laserY e"

text \<open>The callers pass a collision that is not \<open>null\<close>, so the resolvers take the record.\<close>

definition resolveBallBrick :: "ball \<Rightarrow> brick \<Rightarrow> rect_collision \<Rightarrow> ball" where
  "resolveBallBrick b k col =
     (case side col of
        Top \<Rightarrow> b\<lparr>ball.dy := - ball.dy b, ball.y := brick.y k - size b / 2\<rparr>
      | Bottom \<Rightarrow> b\<lparr>ball.dy := - ball.dy b, ball.y := brick.y k + brick.height k + size b / 2\<rparr>
      | Left \<Rightarrow> b\<lparr>ball.dx := - ball.dx b, ball.x := brick.x k - size b / 2\<rparr>
      | Right \<Rightarrow> b\<lparr>ball.dx := - ball.dx b, ball.x := brick.x k + brick.width k + size b / 2\<rparr>)"

definition resolveBallPaddle :: "ball \<Rightarrow> paddle \<Rightarrow> paddle_collision \<Rightarrow> ball" where
  "resolveBallPaddle b p col =
     (let b1 = setVelocityAngle (angle col) b;
          b2 = b1\<lparr>ball.y := paddle.y p - size b1 / 2\<rparr>
      in b2\<lparr>ball.speed := min (ball.speed b2 * (102 / 100)) MAX_SPEED\<rparr>)"

subsection \<open>game.js: the state owned by the driver\<close>

text \<open>
  The fields of \<open>Game\<close> that \<open>checkCollisions\<close> and the functions it calls read or write;
  the phase, the lives, the level, the high score and the frame timing are left out.
  \<open>bricks\<close> is \<open>levelManager.bricks\<close>. The outcomes of the successive calls of
  \<open>Math.random()\<close> are the stream \<open>rnd\<close>, read at the position \<open>rix\<close>; \<open>sounds\<close> logs the
  calls \<open>audio.play(name, pitch)\<close> and \<open>timeouts\<close> the delays handed to \<open>setTimeout\<close>.
\<close>

record laser =
  x :: real
  y :: real

record game =
  paddle :: paddle
  balls :: "ball list"
  powerUps :: "powerUp list"
  enemies :: "enemy list"
  lasers :: "laser list"
  bricks :: "brick list"
  score :: int
  bricksDestroyed :: int
  speedIncreaseThreshold :: int
  rnd :: "nat \<Rightarrow> real"
  rix :: nat
  sounds :: "(string \<times> real) list"
  timeouts :: "real list"

definition random :: "game \<Rightarrow> real \<times> game" where
  "random g = (rnd g (rix g), g\<lparr>rix := Suc (rix g)\<rparr>)"

definition play :: "string \<Rightarrow> real \<Rightarrow> game \<Rightarrow> game" where
  "play name pitch g = g\<lparr>sounds := sounds g @ [(name, pitch)]\<rparr>"

text \<open>
  \<open>getActiveBricks()\<close> filters references to the brick objects: the snapshot is the list of
  the positions of the active bricks in \<open>bricks\<close>, in storage order.
\<close>

definition getActiveBricks :: "game \<Rightarrow> nat list" where
  "getActiveBricks g = filter (\<lambda>i. brick.active (bricks g ! i)) [0..<length (bricks g)]"

definition spawnPowerUp :: "real \<Rightarrow> real \<Rightarrow> game \<Rightarrow> game" where
  "spawnPowerUp px py g =
     (let (r, g1) = random g;
          i = \<lfloor>r * real (length POWERUP_TYPES)\<rfloor>;
          randomType = (if 0 \<le> i \<and> nat i < length POWERUP_TYPES
                        then POWERUP_TYPES ! nat i else UNDEFINED_TYPE)
      in g1\<lparr>powerUps := powerUps g1 @ [PowerUp px py randomType]\<rparr>)"

definition spawnExtraBalls :: "game \<Rightarrow> game" where
  "spawnExtraBalls g =
     (case balls g of
        [] \<Rightarrow> g
      | mainBall # _ \<Rightarrow>
          (let leftBall = (Ball (ball.x mainBall) (ball.y mainBall))\<lparr>ball.state := LAUNCHED\<rparr>;
               rightBall = (Ball (ball.x mainBall) (ball.y mainBall))\<lparr>ball.state := LAUNCHED\<rparr>
           in g\<lparr>balls := balls g @ [setVelocityAngle (- pi / 6) leftBall,
                                      setVelocityAngle (pi / 6) rightBall]\<rparr>))"

definition slowBall :: "ball \<Rightarrow> ball" where
  "slowBall b = b\<lparr>ball.speed := max BASE_SPEED (ball.speed b * (7 / 10))\<rparr>"

text \<open>\<open>activatePowerUp\<close> returns the caught power-up and the game.\<close>

definition activatePowerUp :: "powerUp \<Rightarrow> game \<Rightarrow> powerUp \<times> game" where
  "activatePowerUp u g =
     (let u1 = u\<lparr>powerUp.active := False, powerUp.state := CAUGHT\<rparr>;
          g1 = play ''POWERUP'' 1 g
      in (u1,
          (case powerUp.type u1 of
             EXTEND \<Rightarrow> g1\<lparr>paddle := Paddle_extend POWERUP_DURATION (paddle g1),
                           timeouts := timeouts g1 @ [POWERUP_DURATION]\<rparr>
           | SLOW \<Rightarrow> g1\<lparr>balls := map slowBall (balls g1)\<rparr>
           | MULTIBALL \<Rightarrow> spawnExtraBalls g1
           | LASER \<Rightarrow> g1\<lparr>paddle := enableLaser POWERUP_DURATION (paddle g1)\<rparr>
           | UNDEFINED_TYPE \<Rightarrow> g1)))"

definition fireLaser :: "game \<Rightarrow> game" where
  "fireLaser g =
     (if \<not> hasLaser (paddle g) then g
      else play ''LASER'' 1
             (g\<lparr>lasers := lasers g
                   @ map (\<lambda>(px, py). \<lparr>laser.x = px, laser.y = py\<rparr>) (getLaserPositions (paddle g))\<rparr>))"

subsection \<open>game.js: \<open>checkCollisions\<close>\<close>

text \<open>
  The body of \<open>if (collision) { ... break; }\<close> for the brick at position \<open>i\<close> of \<open>bricks\<close>.
  \<open>a % n === 0\<close> is false for \<open>n = 0\<close> (the remainder is NaN) and otherwise says that \<open>n\<close>
  divides \<open>a\<close>.
\<close>

definition brickCollision :: "ball \<Rightarrow> nat \<Rightarrow> rect_collision \<Rightarrow> game \<Rightarrow> ball \<times> game" where
  "brickCollision b i col g =
     (let b1 = resolveBallBrick b (bricks g ! i) col;
          (destroyed, k) = hit (bricks g ! i);
          g1 = g\<lparr>bricks := (bricks g)[i := k]\<rparr>
      in if destroyed then
           (let g2 = g1\<lparr>score := score g1 + brick.score k,
                        bricksDestroyed := bricksDestroyed g1 + 1\<rparr>;
                (r, g3) = random g2;
                g4 = play ''BRICK_HIT'' (8 / 10 + r * (4 / 10)) g3;
                g5 = (if canDropPowerUp k
                      then (let (r', g') = random g4
                            in if r' < DROP_CHANCE
                               then spawnPowerUp (brick.x k + brick.width k / 2)
                                      (brick.y k + brick.height k) g'
                               else g')
                      else g4);
                b2 = (if speedIncreaseThreshold g5 \<noteq> 0
                           \<and> bricksDestroyed g5 mod speedIncreaseThreshold g5 = 0
                      then increaseSpeed (105 / 100) b1 else b1)
            in (b2, g5))
         else (b1, play ''BRICK_HIT'' (6 / 10) g1))"

text \<open>\<open>for (const brick of activeBricks)\<close>: the first collision ends the loop.\<close>

fun brickLoop :: "ball \<Rightarrow> nat list \<Rightarrow> game \<Rightarrow> ball \<times> game" where
  "brickLoop b [] g = (b, g)"
| "brickLoop b (i # is) g =
     (case checkBallBrick b (bricks g ! i) of
        None \<Rightarrow> brickLoop b is g
      | Some col \<Rightarrow> brickCollision b i col g)"

definition paddleStep :: "ball \<Rightarrow> game \<Rightarrow> ball \<times> game" where
  "paddleStep b g =
     (case checkBallPaddle b (paddle g) of
        None \<Rightarrow> (b, g)
      | Some paddleCollision \<Rightarrow>
          (let b1 = resolveBallPaddle b (paddle g) paddleCollision;
               (r, g1) = random g
           in (b1, play ''PADDLE_HIT'' (8 / 10 + r * (3 / 10)) g1)))"

text \<open>\<open>enemy.deflectBall(ball)\<close> draws its two random numbers only past its guard.\<close>

definition enemyDeflect :: "enemy \<Rightarrow> ball \<Rightarrow> game \<Rightarrow> ball \<times> game" where
  "enemyDeflect e b g =
     (if \<not> visible e \<or> \<not> ball.active b then (b, g)
      else (let (r1, g1) = random g; (r2, g2) = random g1 in (deflectBall r1 r2 e b, g2)))"

fun enemyLoop :: "ball \<Rightarrow> enemy list \<Rightarrow> game \<Rightarrow> ball \<times> game" where
  "enemyLoop b [] g = (b, g)"
| "enemyLoop b (e # es) g =
     (if checkBallEnemy b e
      then (let (b1, g1) = enemyDeflect e b g in enemyLoop b1 es (play ''WALL_HIT'' (3 / 2) g1))
      else enemyLoop b es g)"

definition ballCollisions :: "nat list \<Rightarrow> ball \<Rightarrow> game \<Rightarrow> ball \<times> game" where
  "ballCollisions activeBricks b g =
     (if ball.state b \<noteq> LAUNCHED then (b, g)
      else
        (let (b1, g1) = brickLoop b activeBricks g;
             (b2, g2) = paddleStep b1 g1
         in enemyLoop b2 (enemies g2) g2))"

fun ballsLoop :: "nat list \<Rightarrow> ball list \<Rightarrow> game \<Rightarrow> ball list \<times> game" where
  "ballsLoop activeBricks [] g = ([], g)"
| "ballsLoop activeBricks (b # bs) g =
     (let (b1, g1) = ballCollisions activeBricks b g;
          (bs1, g2) = ballsLoop activeBricks bs g1
      in (b1 # bs1, g2))"

fun powerUpsLoop :: "powerUp list \<Rightarrow> game \<Rightarrow> powerUp list \<times> game" where
  "powerUpsLoop [] g = ([], g)"
| "powerUpsLoop (u # us) g =
     (let (u1, g1) = (if powerUp.state u = FALLING \<and> checkPowerUpPaddle u (paddle g)
                      then activatePowerUp u g else (u, g));
          (us1, g2) = powerUpsLoop us g1
      in (u1 # us1, g2))"

text \<open>The inner loop of one laser over the enemies; \<open>laser.y = -100\<close> takes effect at once.\<close>

fun laserEnemies :: "laser \<Rightarrow> enemy list \<Rightarrow> game \<Rightarrow> laser \<times> enemy list \<times> game" where
  "laserEnemies l [] g = (l, [], g)"
| "laserEnemies l (e # es) g =
     (if enemy.active e \<and> visible e \<and> checkLaserEnemy (laser.x l) (laser.y l) e
      then (let (l1, es1, g1) =
                  laserEnemies (l\<lparr>laser.y := - 100\<rparr>) es
                    (play ''ENEMY_HIT'' 1 (g\<lparr>score := score g + 50\<rparr>))
            in (l1, snd (Enemy_hit e) # es1, g1))
      else (let (l1, es1, g1) = laserEnemies l es g in (l1, e # es1, g1)))"

fun lasersLoop :: "laser list \<Rightarrow> enemy list \<Rightarrow> game \<Rightarrow> laser list \<times> enemy list \<times> game" where
  "lasersLoop [] es g = ([], es, g)"
| "lasersLoop (l # ls) es g =
     (let (l1, es1, g1) = laserEnemies l es g;
          (ls1, es2, g2) = lasersLoop ls es1 g1
      in (l1 # ls1, es2, g2))"

definition checkCollisions :: "game \<Rightarrow> game" where
  "checkCollisions g =
     (let activeBricks = getActiveBricks g;
          (bs, g1) = ballsLoop activeBricks (balls g) g;
          g2 = g1\<lparr>balls := bs\<rparr>;
          (us, g3) = powerUpsLoop (powerUps g2) g2;
          g4 = g3\<lparr>powerUps := us\<rparr>;
          (ls, es, g5) = lasersLoop (lasers g4) (enemies g4) g4
      in g5\<lparr>lasers := ls, enemies := es\<rparr>)"

text \<open>
  The state the constructor and \<open>init\<close> leave behind, for a given stream of random numbers.
\<close>

definition Game :: "(nat \<Rightarrow> real) \<Rightarrow> game" where
  "Game r =
     \<lparr>paddle = Paddle, balls = [], powerUps = [], enemies = [], lasers = [], bricks = [],
      score = 0, bricksDestroyed = 0, speedIncreaseThreshold = 10, rnd = r, rix = 0,
      sounds = [], timeouts = []\<rparr>"

subsection \<open>Sequences of speed-changing events\<close>

text \<open>
  The three places that assign \<open>ball.speed\<close> during play: \<open>increaseSpeed(1.05)\<close> on every
  tenth destroyed brick, \<open>resolveBallPaddle\<close> on a paddle hit, and the \<open>SLOW\<close> case of
  \<open>activatePowerUp\<close>.
\<close>

datatype speed_event = SpeedIncrease | PaddleHit paddle paddle_collision | SlowCaught

fun applySpeedEvent :: "ball \<Rightarrow> speed_event \<Rightarrow> ball" where
  "applySpeedEvent b SpeedIncrease = increaseSpeed (105 / 100) b"
| "applySpeedEvent b (PaddleHit p col) = resolveBallPaddle b p col"
| "applySpeedEvent b SlowCaught = slowBall b"

subsection \<open>Concrete scenes\<close>

text \<open>A launched ball that travels straight down at base speed.\<close>

definition fallingBall :: "real \<Rightarrow> real \<Rightarrow> ball" where
  "fallingBall bx by = (Ball bx by)\<lparr>ball.state := LAUNCHED, ball.dx := 0, ball.dy := 400\<rparr>"

text \<open>The first brick of a level, about to be struck from above; every random draw is 0.1.\<close>

definition dropGame :: game where
  "dropGame =
     (Game (\<lambda>n. 1 / 10))\<lparr>bricks := [Brick 192 60 Single], balls := [fallingBall 286 58]\<rparr>"

text \<open>A ball whose centre is three pixels left of the new paddle's left edge.\<close>

definition edgeBall :: ball where
  "edgeBall = fallingBall 897 1018"

text \<open>
  The first two cells of a brick row (188 wide, 4 apart) and a ball in the gap: its radius
  4 reaches both bricks.
\<close>

definition gapGame :: game where
  "gapGame =
     (Game (\<lambda>n. 1 / 10))\<lparr>bricks := [Brick 192 60 Single, Brick 384 60 Single],
                              balls := [fallingBall 382 84]\<rparr>"

text \<open>An enemy, a laser beam inside it, and a ball ten pixels above it.\<close>

definition enemyGame :: game where
  "enemyGame =
     (Game (\<lambda>n. 1 / 10))\<lparr>enemies := [Enemy 0 100 100],
                              lasers := [\<lparr>laser.x = 120, laser.y = 120\<rparr>],
                              balls := [fallingBall 120 90]\<rparr>"

text \<open>
  The state at the next collision pass of \<open>enemyGame\<close>: the pass has run and the ball
  has made its next \<open>Ball.update\<close> step of one sixtieth of a second.
\<close>

definition enemyNext :: game where
  "enemyNext =
     (checkCollisions enemyGame)
       \<lparr>balls := map (Ball_update (1 / 60)) (balls (checkCollisions enemyGame))\<rparr>"

text \<open>The ball invariant of the specification.\<close>

definition capped :: "ball \<Rightarrow> bool" where
  "capped b \<longleftrightarrow> ball.speed b \<le> MAX_SPEED"

text \<open>
  The brick invariant of the specification: \<open>hits\<close> is not below 0 except for the
  indestructible sentinel, and an active destructible brick has a hit left.
\<close>

definition brickInv :: "brick \<Rightarrow> bool" where
  "brickInv k \<longleftrightarrow>
     indestructible k \<or> (0 \<le> hits k \<and> (brick.active k \<longrightarrow> 1 \<le> hits k))"

section \<open>Verification\<close>

lemmas consts_defs = CANVAS_WIDTH_def CANVAS_HEIGHT_def PADDLE_WIDTH_def PADDLE_HEIGHT_def
  PADDLE_Y_POSITION_def PADDLE_SPEED_def BALL_SIZE_def BASE_SPEED_def MAX_SPEED_def
  BRICK_WIDTH_def BRICK_HEIGHT_def

subsection \<open>The paddle stays on the field\<close>

lemma Paddle_inBounds: "paddleInBounds Paddle"
  by (simp add: paddleInBounds_def Paddle_def consts_defs)

lemma move_inBounds:
  "paddle.width p \<le> CANVAS_WIDTH \<Longrightarrow> paddleInBounds p \<Longrightarrow> paddleInBounds (move d dt p)"
  by (simp add: paddleInBounds_def move_def Let_def)

lemma moveTo_inBounds:
  "paddle.width p \<le> CANVAS_WIDTH \<Longrightarrow> paddleInBounds (moveTo t p)"
  by (simp add: paddleInBounds_def moveTo_def Let_def)

lemma enableLaser_inBounds: "paddleInBounds p \<Longrightarrow> paddleInBounds (enableLaser d p)"
  by (simp add: paddleInBounds_def enableLaser_def)

lemma Paddle_update_inBounds: "paddleInBounds p \<Longrightarrow> paddleInBounds (Paddle_update d p)"
  by (simp add: paddleInBounds_def Paddle_update_def Let_def)

lemma Paddle_reset_inBounds:
  "0 \<le> baseWidth p \<Longrightarrow> baseWidth p \<le> CANVAS_WIDTH \<Longrightarrow> paddleInBounds (Paddle_reset p)"
  by (simp add: paddleInBounds_def Paddle_reset_def Let_def consts_defs)

lemma Paddle_extend_timeout_inBounds:
  "paddleInBounds p \<Longrightarrow> baseWidth p \<le> paddle.width p
     \<Longrightarrow> paddleInBounds (Paddle_extend_timeout p)"
  by (simp add: paddleInBounds_def Paddle_extend_timeout_def Let_def)

lemma Paddle_extend_inBounds_iff:
  "paddleInBounds (Paddle_extend d p)
     \<longleftrightarrow> 0 \<le> paddle.x p \<and> paddle.x p \<le> CANVAS_WIDTH - baseWidth p * (3 / 2)"
  by (simp add: paddleInBounds_def Paddle_extend_def)

text \<open>
  Claim C3. The paddle position stays in \<open>[0, fieldWidth - width]\<close> under every paddle
  operation. The lemmas above show this for the constructor, \<open>move\<close>, \<open>moveTo\<close>,
  \<open>enableLaser\<close>, \<open>update\<close>, \<open>reset\<close> and the timeout callback. \<open>extend\<close> widens the
  paddle and leaves \<open>x\<close> as it is: a paddle moved to the right edge (\<open>x = 1800\<close>, width 120)
  has width 180 after \<open>extend\<close> and reaches to 1980, past the field's 1920.
\<close>

theorem extend_leaves_field:
  "paddleInBounds (moveTo 1920 Paddle) \<and>
   paddle.x (Paddle_extend POWERUP_DURATION (moveTo 1920 Paddle)) = 1800 \<and>
   paddle.width (Paddle_extend POWERUP_DURATION (moveTo 1920 Paddle)) = 180 \<and>
   \<not> paddleInBounds (Paddle_extend POWERUP_DURATION (moveTo 1920 Paddle))"
  by (simp add: paddleInBounds_def Paddle_extend_def moveTo_def Paddle_def Let_def consts_defs)

subsection \<open>Brick hits\<close>

lemma hit_indestructible: "indestructible k \<Longrightarrow> hit k = (False, k)"
  by (simp add: hit_def)

lemma hit_destroyed_inactive: "fst (hit k) \<Longrightarrow> \<not> brick.active (snd (hit k))"
  by (simp add: hit_def Let_def split: if_splits)

text \<open>
  Claim C4, as stated, fails on a second hit: \<open>hit\<close> does not look at \<open>active\<close>. A single-hit
  brick is inactive after its first hit; the second call returns \<open>true\<close> again and takes
  \<open>hits\<close> to \<open>-1\<close>.
\<close>

theorem hit_inactive_counterexample:
  "\<not> brick.active (snd (hit (Brick 0 0 Single))) \<and>
   fst (hit (snd (hit (Brick 0 0 Single)))) = True \<and>
   hits (snd (hit (snd (hit (Brick 0 0 Single))))) = - 1"
  by (simp add: hit_def updateColor_def Let_def Brick_def initType_def BRICK_COLORS_def)

lemma Brick_brickInv: "brickInv (Brick bx by t)"
  by (cases t) (simp_all add: brickInv_def Brick_def initType_def)

lemma hit_brickInv: "brickInv k \<Longrightarrow> brick.active k \<Longrightarrow> brickInv (snd (hit k))"
  by (auto simp add: brickInv_def hit_def updateColor_def Let_def)

lemma hit_nonneg:
  "brickInv k \<Longrightarrow> brick.active k \<Longrightarrow> \<not> indestructible k \<Longrightarrow> 0 \<le> hits (snd (hit k))"
  by (auto simp add: brickInv_def hit_def updateColor_def Let_def)

lemma checkBallBrick_active: "checkBallBrick b k = Some col \<Longrightarrow> brick.active k"
  by (simp add: checkBallBrick_def split: if_splits)

subsection \<open>Speed increase and direction\<close>

lemma sqrt_sum_pos: "(a::real) \<noteq> 0 \<or> b \<noteq> 0 \<Longrightarrow> 0 < sqrt (a * a + b * b)"
  by (metis not_sum_squares_lt_zero real_sqrt_gt_zero sum_squares_eq_zero_iff
      linorder_neqE_linordered_idom)

lemma sqrt_one_plus_ratio:
  assumes "a \<noteq> 0"
  shows "sqrt (1 + (b / a)\<^sup>2) = sqrt (a * a + b * b) / \<bar>a\<bar>"
proof -
  have "1 + (b / a)\<^sup>2 = (a * a + b * b) / (a * a)"
    using assms by (simp add: power2_eq_square field_simps)
  then show ?thesis
    by (simp add: real_sqrt_divide)
qed

lemma cos_arctan_div:
  "a \<noteq> 0 \<Longrightarrow> cos (arctan (b / a)) = \<bar>a\<bar> / sqrt (a * a + b * b)"
  by (simp add: cos_arctan sqrt_one_plus_ratio)

lemma sin_arctan_div:
  "a \<noteq> 0 \<Longrightarrow> sin (arctan (b / a)) = (b / a) * \<bar>a\<bar> / sqrt (a * a + b * b)"
  by (simp add: sin_arctan sqrt_one_plus_ratio)

lemma cos_atan2:
  assumes "a \<noteq> 0 \<or> b \<noteq> 0"
  shows "cos (atan2 b a) = a / sqrt (a * a + b * b)"
proof -
  consider "0 < a" | "a < 0" | "a = 0" "0 < b" | "a = 0" "b < 0"
    using assms by fastforce
  then show ?thesis
  proof cases
    case 1 then show ?thesis by (simp add: atan2_def cos_arctan_div)
  next
    case 2 then show ?thesis by (simp add: atan2_def cos_arctan_div)
  next
    case 3 then show ?thesis by (simp add: atan2_def)
  next
    case 4 then show ?thesis by (simp add: atan2_def)
  qed
qed

lemma sin_atan2:
  assumes "a \<noteq> 0 \<or> b \<noteq> 0"
  shows "sin (atan2 b a) = b / sqrt (a * a + b * b)"
proof -
  consider "0 < a" | "a < 0" | "a = 0" "0 < b" | "a = 0" "b < 0"
    using assms by fastforce
  then show ?thesis
  proof cases
    case 1 then show ?thesis by (simp add: atan2_def sin_arctan_div)
  next
    case 2 then show ?thesis by (simp add: atan2_def sin_arctan_div)
  next
    case 3 then show ?thesis by (simp add: atan2_def)
  next
    case 4 then show ?thesis by (simp add: atan2_def)
  qed
qed

lemma quarter_turn: "sin (t + pi / 2) = cos t" "- cos (t + pi / 2) = sin t"
  by (simp_all add: sin_add cos_add)

lemma increaseSpeed_speed: "ball.speed (increaseSpeed m b) = min (ball.speed b * m) MAX_SPEED"
  by (simp add: increaseSpeed_def Let_def)

lemma increaseSpeed_dx:
  "ball.dx (increaseSpeed m b)
     = cos (atan2 (ball.dy b) (ball.dx b)) * min (ball.speed b * m) MAX_SPEED"
  by (simp add: increaseSpeed_def Let_def quarter_turn(1))

lemma increaseSpeed_dy:
  "ball.dy (increaseSpeed m b)
     = sin (atan2 (ball.dy b) (ball.dx b)) * min (ball.speed b * m) MAX_SPEED"
  unfolding increaseSpeed_def Let_def
  using quarter_turn(2) [of "atan2 (ball.dy b) (ball.dx b)"] by simp

text \<open>
  Claim C5. \<open>increaseSpeed m\<close> sets the speed to \<open>min (speed * m) MAX_SPEED\<close> and keeps the
  direction of travel: for a moving ball (and a positive speed and multiplier, as in the
  game) the new velocity is the old one times the positive factor
  \<open>speed' / sqrt (dx\<^sup>2 + dy\<^sup>2)\<close>. The quarter turn added to \<open>atan2 dy dx\<close> and the launch
  convention \<open>(sin, - cos)\<close> cancel.
\<close>

theorem increaseSpeed_keeps_direction:
  assumes "ball.dx b \<noteq> 0 \<or> ball.dy b \<noteq> 0" and "0 < ball.speed b" and "0 < m"
  shows "ball.speed (increaseSpeed m b) = min (ball.speed b * m) MAX_SPEED \<and>
         0 < ball.speed (increaseSpeed m b)
               / sqrt (ball.dx b * ball.dx b + ball.dy b * ball.dy b) \<and>
         ball.dx (increaseSpeed m b) =
           ball.speed (increaseSpeed m b)
             / sqrt (ball.dx b * ball.dx b + ball.dy b * ball.dy b) * ball.dx b \<and>
         ball.dy (increaseSpeed m b) =
           ball.speed (increaseSpeed m b)
             / sqrt (ball.dx b * ball.dx b + ball.dy b * ball.dy b) * ball.dy b"
proof -
  have p: "0 < min (ball.speed b * m) MAX_SPEED"
    using assms(2,3) by (simp add: MAX_SPEED_def)
  have r: "0 < sqrt (ball.dx b * ball.dx b + ball.dy b * ball.dy b)"
    using assms(1) by (rule sqrt_sum_pos)
  show ?thesis
    using p r
    by (simp add: increaseSpeed_speed increaseSpeed_dx increaseSpeed_dy
        cos_atan2 [OF assms(1)] sin_atan2 [OF assms(1)])
qed

theorem increaseSpeed_keeps_direction_witness:
  "ball.dx (fallingBall 0 0) = 0 \<and> ball.dy (fallingBall 0 0) = 400 \<and>
   ball.speed (fallingBall 0 0) = 400 \<and>
   ball.speed (increaseSpeed (105 / 100) (fallingBall 0 0)) = 420 \<and>
   ball.dx (increaseSpeed (105 / 100) (fallingBall 0 0)) = 0 \<and>
   ball.dy (increaseSpeed (105 / 100) (fallingBall 0 0)) = 420"
proof -
  have f: "ball.dx (fallingBall 0 0) = 0" "ball.dy (fallingBall 0 0) = 400"
    "ball.speed (fallingBall 0 0) = 400"
    by (simp_all add: fallingBall_def Ball_def BASE_SPEED_def)
  have q: "sqrt (0 * 0 + 400 * 400) = (400::real)"
    using real_sqrt_abs2 [of 400] by simp
  have "ball.speed (increaseSpeed (105 / 100) (fallingBall 0 0)) = 420"
    by (simp add: increaseSpeed_speed f MAX_SPEED_def)
  with increaseSpeed_keeps_direction [of "fallingBall 0 0" "105 / 100"] f q
  show ?thesis by simp
qed

subsection \<open>Circle against rectangle\<close>

lemma centerInside_closest:
  assumes "centerInside c r"
  shows "max (rect.x r) (min (circle.x c) (rect.x r + rect.width r)) = circle.x c"
    and "max (rect.y r) (min (circle.y c) (rect.y r + rect.height r)) = circle.y c"
  using assms by (auto simp add: centerInside_def)

text \<open>With the centre inside, the nearest point is the centre itself and both overlaps are \<open>r\<close>.\<close>

lemma checkCircleRect_inside:
  assumes "centerInside c r"
  shows "checkCircleRect c r =
    (if 0 < radius c
     then Some \<lparr>side = (if circle.y c < rect.y r + rect.height r / 2 then Top else Bottom),
                rect_collision.dx = 0, rect_collision.dy = 0, distance = 0\<rparr>
     else None)"
  using assms unfolding checkCircleRect_def centerInside_closest [OF assms]
  by (simp add: centerInside_def Let_def)

lemma checkCircleRect_Some:
  assumes "checkCircleRect c r = Some col"
  shows "rect_collision.dx col
           = circle.x c - max (rect.x r) (min (circle.x c) (rect.x r + rect.width r))"
    and "rect_collision.dy col
           = circle.y c - max (rect.y r) (min (circle.y c) (rect.y r + rect.height r))"
    and "side col =
          (if circle.y c < rect.y r then Top
           else if circle.y c > rect.y r + rect.height r then Bottom
           else if circle.x c < rect.x r then Left
           else if circle.x c > rect.x r + rect.width r then Right
           else if radius c - \<bar>rect_collision.dx col\<bar> < radius c - \<bar>rect_collision.dy col\<bar>
           then (if circle.x c < rect.x r + rect.width r / 2 then Left else Right)
           else (if circle.y c < rect.y r + rect.height r / 2 then Top else Bottom))"
  using assms unfolding checkCircleRect_def Let_def
  by (auto split: if_splits)

text \<open>
  Equal magnitudes of the two components always resolve vertically: above or below the
  rectangle the vertical test comes first, and level with it \<open>dy = 0\<close> forces \<open>dx = 0\<close>.
\<close>

lemma equal_components_vertical:
  assumes "checkCircleRect c r = Some col" and "0 \<le> rect.width r"
    and "\<bar>rect_collision.dx col\<bar> = \<bar>rect_collision.dy col\<bar>"
  shows "side col = Top \<or> side col = Bottom"
proof (cases "circle.y c < rect.y r \<or> circle.y c > rect.y r + rect.height r")
  case True
  then show ?thesis
    by (auto simp add: checkCircleRect_Some(3) [OF assms(1)])
next
  case False
  then have "rect_collision.dy col = 0"
    by (simp add: checkCircleRect_Some(2) [OF assms(1)])
  with assms(3) have "rect_collision.dx col = 0" by simp
  then have "\<not> circle.x c < rect.x r \<and> \<not> circle.x c > rect.x r + rect.width r"
    using assms(2) unfolding checkCircleRect_Some(1) [OF assms(1)] by linarith
  with False assms(3) show ?thesis
    by (simp add: checkCircleRect_Some(3) [OF assms(1)])
qed

text \<open>
  Claim C6. When the circle's centre lies inside the rectangle and the overlaps
  \<open>r - |dx|\<close> and \<open>r - |dy|\<close> are equal, the side is top or bottom; a circle of positive
  radius centred on a corner of the rectangle collides with both components zero and
  resolves to top or bottom. The same holds wherever the centre is: a collision whose two
  components have equal magnitude (also diagonally off a corner) resolves to top or
  bottom, for a rectangle of non-negative width.
\<close>

theorem tie_break_vertical:
  "(checkCircleRect c r = Some col \<and> centerInside c r \<and>
      radius c - \<bar>rect_collision.dx col\<bar> = radius c - \<bar>rect_collision.dy col\<bar>
      \<longrightarrow> side col = Top \<or> side col = Bottom) \<and>
   (0 < radius c \<and> 0 \<le> rect.width r \<and> 0 \<le> rect.height r \<and>
      (circle.x c = rect.x r \<or> circle.x c = rect.x r + rect.width r) \<and>
      (circle.y c = rect.y r \<or> circle.y c = rect.y r + rect.height r)
      \<longrightarrow> (\<exists>k. checkCircleRect c r = Some k \<and> rect_collision.dx k = 0 \<and>
                rect_collision.dy k = 0 \<and> (side k = Top \<or> side k = Bottom))) \<and>
   (checkCircleRect c r = Some col \<and> 0 \<le> rect.width r \<and>
      \<bar>rect_collision.dx col\<bar> = \<bar>rect_collision.dy col\<bar>
      \<longrightarrow> side col = Top \<or> side col = Bottom)"
proof (intro conjI impI)
  assume a: "checkCircleRect c r = Some col \<and> centerInside c r \<and>
      radius c - \<bar>rect_collision.dx col\<bar> = radius c - \<bar>rect_collision.dy col\<bar>"
  then have "centerInside c r" by simp
  from checkCircleRect_inside [OF this] a show "side col = Top \<or> side col = Bottom"
    by (auto split: if_splits)
next
  assume a: "0 < radius c \<and> 0 \<le> rect.width r \<and> 0 \<le> rect.height r \<and>
      (circle.x c = rect.x r \<or> circle.x c = rect.x r + rect.width r) \<and>
      (circle.y c = rect.y r \<or> circle.y c = rect.y r + rect.height r)"
  then have "centerInside c r" by (auto simp add: centerInside_def)
  from checkCircleRect_inside [OF this] a
  show "\<exists>k. checkCircleRect c r = Some k \<and> rect_collision.dx k = 0 \<and>
                rect_collision.dy k = 0 \<and> (side k = Top \<or> side k = Bottom)"
    by simp
next
  assume "checkCircleRect c r = Some col \<and> 0 \<le> rect.width r \<and>
      \<bar>rect_collision.dx col\<bar> = \<bar>rect_collision.dy col\<bar>"
  then have e: "checkCircleRect c r = Some col" "0 \<le> rect.width r"
    "\<bar>rect_collision.dx col\<bar> = \<bar>rect_collision.dy col\<bar>"
    by simp_all
  show "side col = Top \<or> side col = Bottom"
    by (rule equal_components_vertical [OF e])
qed

theorem tie_break_vertical_witness:
  "centerInside \<lparr>circle.x = 192, circle.y = 60, radius = 4\<rparr>
     (Brick_getBounds (Brick 192 60 Single)) \<and>
   checkCircleRect \<lparr>circle.x = 192, circle.y = 60, radius = 4\<rparr>
     (Brick_getBounds (Brick 192 60 Single))
     = Some \<lparr>side = Top, rect_collision.dx = 0, rect_collision.dy = 0, distance = 0\<rparr>"
proof -
  have i: "centerInside \<lparr>circle.x = 192, circle.y = 60, radius = 4\<rparr>
     (Brick_getBounds (Brick 192 60 Single))"
    by (simp add: centerInside_def Brick_getBounds_def Brick_def initType_def consts_defs)
  have "checkCircleRect \<lparr>circle.x = 192, circle.y = 60, radius = 4\<rparr>
     (Brick_getBounds (Brick 192 60 Single))
     = Some \<lparr>side = Top, rect_collision.dx = 0, rect_collision.dy = 0, distance = 0\<rparr>"
    unfolding checkCircleRect_inside [OF i]
    by (simp add: Brick_getBounds_def Brick_def initType_def consts_defs)
  with i tie_break_vertical [of "\<lparr>circle.x = 192, circle.y = 60, radius = 4\<rparr>"
      "Brick_getBounds (Brick 192 60 Single)"
      "\<lparr>side = Top, rect_collision.dx = 0, rect_collision.dy = 0, distance = 0\<rparr>"]
  show ?thesis by simp
qed

subsection \<open>The speed cap\<close>

lemma Ball_speed: "ball.speed (Ball bx by) = BASE_SPEED"
  by (simp add: Ball_def)

lemma increaseSpeed_cap: "ball.speed (increaseSpeed m b) \<le> MAX_SPEED"
  by (simp add: increaseSpeed_speed)

lemma resolveBallPaddle_speed:
  "ball.speed (resolveBallPaddle b p col) = min (ball.speed b * (102 / 100)) MAX_SPEED"
  by (simp add: resolveBallPaddle_def setVelocityAngle_def Let_def)

lemma resolveBallPaddle_cap: "ball.speed (resolveBallPaddle b p col) \<le> MAX_SPEED"
  by (simp add: resolveBallPaddle_speed)

lemma slowBall_cap: "ball.speed b \<le> MAX_SPEED \<Longrightarrow> ball.speed (slowBall b) \<le> MAX_SPEED"
  by (simp add: slowBall_def MAX_SPEED_def BASE_SPEED_def)

lemma applySpeedEvent_cap:
  "ball.speed b \<le> MAX_SPEED \<Longrightarrow> ball.speed (applySpeedEvent b ev) \<le> MAX_SPEED"
  by (cases ev) (simp_all add: increaseSpeed_cap resolveBallPaddle_cap slowBall_cap)

lemma foldl_applySpeedEvent_cap:
  "ball.speed b \<le> MAX_SPEED \<Longrightarrow> ball.speed (foldl applySpeedEvent b evs) \<le> MAX_SPEED"
  by (induction evs arbitrary: b) (simp_all add: applySpeedEvent_cap)

text \<open>
  Claim C7. A ball starts at base speed, and after any sequence of speed increases, paddle
  hits and Slow catches its speed is at most \<open>MAX_SPEED\<close>.
\<close>

theorem speed_cap: "ball.speed (foldl applySpeedEvent (Ball bx by) evs) \<le> MAX_SPEED"
  by (rule foldl_applySpeedEvent_cap) (simp add: Ball_speed BASE_SPEED_def MAX_SPEED_def)

subsection \<open>Ball against paddle\<close>

lemma checkBallPaddle_Some:
  "checkBallPaddle b p = Some col \<longleftrightarrow>
     checkAABB (Ball_getBounds b) (Paddle_getBounds p) \<and> 0 < ball.dy b \<and>
     col = \<lparr>angle = getHitPosition p (ball.x b) * MAX_BOUNCE_ANGLE,
            hitPosition = getHitPosition p (ball.x b)\<rparr>"
  by (auto simp add: checkBallPaddle_def Let_def)

text \<open>An overlapping ball's centre is less than half a ball outside the paddle's span.\<close>

lemma getHitPosition_range:
  assumes "checkAABB (Ball_getBounds b) (Paddle_getBounds p)" "0 < paddle.width p"
  shows "\<bar>getHitPosition p (ball.x b)\<bar> < 1 + size b / paddle.width p"
proof -
  have hi: "ball.x b - paddle.x p < paddle.width p + size b / 2"
   and lo: "- (size b / 2) < ball.x b - paddle.x p"
    using assms(1) by (simp_all add: checkAABB_def Ball_getBounds_def Paddle_getBounds_def)
  have "getHitPosition p (ball.x b)
          = (2 * (ball.x b - paddle.x p) - paddle.width p) / paddle.width p"
    using assms(2) by (simp add: getHitPosition_def Let_def field_simps)
  moreover have "\<bar>2 * (ball.x b - paddle.x p) - paddle.width p\<bar> < paddle.width p + size b"
    using hi lo by (simp add: abs_less_iff)
  ultimately show ?thesis
    using assms(2) by (simp add: field_simps)
qed

text \<open>
  What the code does on a ball-paddle contact. A collision is detected exactly when the
  ball moves downward and the boxes overlap. For a paddle of positive width the hit
  position is \<open>((ball.x - paddle.x) / width - 0.5) * 2\<close> with no clamp, and the angle is
  the hit position times 60 degrees; the hit position is within \<open>[-1, 1]\<close> when the
  ball's centre is over the paddle, and otherwise overshoots by less than \<open>size / width\<close>.
  The centre of the paddle gives angle 0 and its left edge -60 degrees. Resolution sets
  the velocity from the angle at the speed before the increase, puts the ball at
  \<open>paddle.y - size / 2\<close>, and sets the speed to \<open>min (speed * 1.02) MAX_SPEED\<close>.
\<close>

lemma paddle_bounce:
  "(checkBallPaddle b p \<noteq> None \<longleftrightarrow>
      0 < ball.dy b \<and> checkAABB (Ball_getBounds b) (Paddle_getBounds p)) \<and>
   (checkBallPaddle b p = Some col \<and> 0 < paddle.width p \<longrightarrow>
      hitPosition col = ((ball.x b - paddle.x p) / paddle.width p - 1 / 2) * 2 \<and>
      angle col = hitPosition col * (pi / 3) \<and>
      \<bar>hitPosition col\<bar> < 1 + size b / paddle.width p \<and>
      (ball.x b = paddle.x p + paddle.width p / 2 \<longrightarrow> angle col = 0) \<and>
      (ball.x b = paddle.x p \<longrightarrow> angle col = - (pi / 3)) \<and>
      (paddle.x p \<le> ball.x b \<and> ball.x b \<le> paddle.x p + paddle.width p
         \<longrightarrow> - 1 \<le> hitPosition col \<and> hitPosition col \<le> 1) \<and>
      ball.dx (resolveBallPaddle b p col) = sin (angle col) * ball.speed b \<and>
      ball.dy (resolveBallPaddle b p col) = - cos (angle col) * ball.speed b \<and>
      ball.y (resolveBallPaddle b p col) = paddle.y p - size b / 2 \<and>
      ball.speed (resolveBallPaddle b p col) = min (ball.speed b * (102 / 100)) MAX_SPEED)"
proof (intro conjI impI)
  show "checkBallPaddle b p \<noteq> None \<longleftrightarrow>
      0 < ball.dy b \<and> checkAABB (Ball_getBounds b) (Paddle_getBounds p)"
    by (auto simp add: checkBallPaddle_def Let_def)
next
  assume a: "checkBallPaddle b p = Some col \<and> 0 < paddle.width p"
  then have c: "checkAABB (Ball_getBounds b) (Paddle_getBounds p)" and w: "0 < paddle.width p"
    and h: "hitPosition col = getHitPosition p (ball.x b)"
    and g: "angle col = getHitPosition p (ball.x b) * MAX_BOUNCE_ANGLE"
    by (simp_all add: checkBallPaddle_Some)
  show "hitPosition col = ((ball.x b - paddle.x p) / paddle.width p - 1 / 2) * 2"
    by (simp add: h getHitPosition_def Let_def)
  show "angle col = hitPosition col * (pi / 3)" by (simp add: g h MAX_BOUNCE_ANGLE_def)
  show "\<bar>hitPosition col\<bar> < 1 + size b / paddle.width p"
    unfolding h by (rule getHitPosition_range [OF c w])
  show "angle col = 0" if "ball.x b = paddle.x p + paddle.width p / 2"
    using that w by (simp add: g getHitPosition_def Let_def)
  show "angle col = - (pi / 3)" if "ball.x b = paddle.x p"
    using that w by (simp add: g getHitPosition_def Let_def MAX_BOUNCE_ANGLE_def)
  show "- 1 \<le> hitPosition col"
    if "paddle.x p \<le> ball.x b \<and> ball.x b \<le> paddle.x p + paddle.width p"
    using that w by (simp add: h getHitPosition_def Let_def field_simps)
  show "hitPosition col \<le> 1"
    if "paddle.x p \<le> ball.x b \<and> ball.x b \<le> paddle.x p + paddle.width p"
    using that w by (simp add: h getHitPosition_def Let_def field_simps)
  show "ball.dx (resolveBallPaddle b p col) = sin (angle col) * ball.speed b"
    by (simp add: resolveBallPaddle_def setVelocityAngle_def Let_def)
  show "ball.dy (resolveBallPaddle b p col) = - cos (angle col) * ball.speed b"
    by (simp add: resolveBallPaddle_def setVelocityAngle_def Let_def)
  show "ball.y (resolveBallPaddle b p col) = paddle.y p - size b / 2"
    by (simp add: resolveBallPaddle_def setVelocityAngle_def Let_def)
  show "ball.speed (resolveBallPaddle b p col) = min (ball.speed b * (102 / 100)) MAX_SPEED"
    by (rule resolveBallPaddle_speed)
qed

lemma paddle_bounce_centre:
  "checkBallPaddle (fallingBall 960 1018) Paddle = Some \<lparr>angle = 0, hitPosition = 0\<rparr> \<and>
   0 < paddle.width Paddle \<and>
   ball.x (fallingBall 960 1018) = paddle.x Paddle + paddle.width Paddle / 2 \<and>
   ball.dx (resolveBallPaddle (fallingBall 960 1018) Paddle \<lparr>angle = 0, hitPosition = 0\<rparr>) = 0 \<and>
   ball.dy (resolveBallPaddle (fallingBall 960 1018) Paddle \<lparr>angle = 0, hitPosition = 0\<rparr>)
     = - 400 \<and>
   ball.y (resolveBallPaddle (fallingBall 960 1018) Paddle \<lparr>angle = 0, hitPosition = 0\<rparr>)
     = 1016 \<and>
   ball.speed (resolveBallPaddle (fallingBall 960 1018) Paddle \<lparr>angle = 0, hitPosition = 0\<rparr>)
     = 408"
proof -
  have c: "checkBallPaddle (fallingBall 960 1018) Paddle = Some \<lparr>angle = 0, hitPosition = 0\<rparr>"
    by (simp add: checkBallPaddle_def fallingBall_def Ball_def Paddle_def checkAABB_def
        Ball_getBounds_def Paddle_getBounds_def getHitPosition_def Let_def consts_defs)
  have f: "ball.x (fallingBall 960 1018) = 960" "size (fallingBall 960 1018) = 8"
    "ball.speed (fallingBall 960 1018) = 400"
    by (simp_all add: fallingBall_def Ball_def consts_defs)
  have q: "paddle.x Paddle = 900" "paddle.width Paddle = 120" "paddle.y Paddle = 1020"
    by (simp_all add: Paddle_def consts_defs)
  from paddle_bounce [of "fallingBall 960 1018" Paddle "\<lparr>angle = 0, hitPosition = 0\<rparr>"] c f q
  show ?thesis by (simp add: MAX_SPEED_def)
qed

text \<open>
  Claim C8. On a paddle collision the hit position is in \<open>[-1, 1]\<close> and the angle is the
  hit position times 60 degrees, so at most \<open>MAX_BOUNCE_ANGLE\<close> in magnitude. The code
  computes the hit position without a clamp. A falling ball whose centre is three pixels
  left of the new paddle's left edge overlaps the paddle; its hit position is \<open>-1.05\<close>
  and its bounce angle \<open>-63\<close> degrees, beyond the maximum.
\<close>

theorem edge_hit_exceeds_max_angle:
  "checkAABB (Ball_getBounds edgeBall) (Paddle_getBounds Paddle) \<and>
   0 < ball.dy edgeBall \<and>
   ball.x edgeBall = 897 \<and> paddle.x Paddle = 900 \<and> paddle.width Paddle = 120 \<and>
   checkBallPaddle edgeBall Paddle =
     Some \<lparr>angle = - (21 / 20) * MAX_BOUNCE_ANGLE, hitPosition = - (21 / 20)\<rparr> \<and>
   - (21 / 20) < (- 1 :: real) \<and>
   - (21 / 20) * MAX_BOUNCE_ANGLE < - MAX_BOUNCE_ANGLE"
proof -
  have e: "ball.x edgeBall = 897" "ball.y edgeBall = 1018" "size edgeBall = 8"
    "ball.dy edgeBall = 400"
    by (simp_all add: edgeBall_def fallingBall_def Ball_def consts_defs)
  have q: "paddle.x Paddle = 900" "paddle.width Paddle = 120" "paddle.y Paddle = 1020"
    "paddle.height Paddle = 20"
    by (simp_all add: Paddle_def consts_defs)
  have a: "checkAABB (Ball_getBounds edgeBall) (Paddle_getBounds Paddle)"
    by (simp add: checkAABB_def Ball_getBounds_def Paddle_getBounds_def e q)
  have h: "getHitPosition Paddle 897 = - (21 / 20)"
    by (simp add: getHitPosition_def Let_def q)
  have c: "checkBallPaddle edgeBall Paddle =
     Some \<lparr>angle = - (21 / 20) * MAX_BOUNCE_ANGLE, hitPosition = - (21 / 20)\<rparr>"
    by (simp add: checkBallPaddle_def a e h Let_def)
  have m: "- (21 / 20) * MAX_BOUNCE_ANGLE < - MAX_BOUNCE_ANGLE"
    by (simp add: MAX_BOUNCE_ANGLE_def)
  show ?thesis
    using a c m by (simp add: e q)
qed

subsection \<open>The Slow power-up\<close>

lemma storeTrail_speed:
  "storeTrail (b\<lparr>ball.speed := s\<rparr>) = (storeTrail b)\<lparr>ball.speed := s\<rparr>"
  by (simp add: storeTrail_def Let_def)

lemma moveBall_speed:
  "moveBall dt (b\<lparr>ball.speed := s\<rparr>) = (moveBall dt b)\<lparr>ball.speed := s\<rparr>"
  by (simp add: moveBall_def)

lemma sideWalls_speed:
  "sideWalls (b\<lparr>ball.speed := s\<rparr>) = (sideWalls b)\<lparr>ball.speed := s\<rparr>"
  by (simp add: sideWalls_def)

lemma topWall_speed: "topWall (b\<lparr>ball.speed := s\<rparr>) = (topWall b)\<lparr>ball.speed := s\<rparr>"
  by (simp add: topWall_def)

lemma fellBelow_speed:
  "fellBelow (b\<lparr>ball.speed := s\<rparr>) = (fellBelow b)\<lparr>ball.speed := s\<rparr>"
  by (simp add: fellBelow_def)

text \<open>\<open>Ball.update\<close> never reads the speed field: it commutes with any assignment to it.\<close>

lemma Ball_update_speed:
  "Ball_update dt (b\<lparr>ball.speed := s\<rparr>) = (Ball_update dt b)\<lparr>ball.speed := s\<rparr>"
  by (simp add: Ball_update_def storeTrail_speed moveBall_speed sideWalls_speed topWall_speed
      fellBelow_speed)

lemma activatePowerUp_SLOW_balls:
  "powerUp.type u = SLOW \<Longrightarrow> balls (snd (activatePowerUp u g)) = map slowBall (balls g)"
  by (simp add: activatePowerUp_def Let_def play_def)

text \<open>
  Claim C10. Catching a Slow power-up changes, in every ball, the speed field only (to
  \<open>max BASE_SPEED (0.7 * speed)\<close>): \<open>dx\<close> and \<open>dy\<close> are as before, and the next
  \<open>Ball.update\<close> moves the ball exactly as it would have moved it without the catch.
\<close>

theorem slow_changes_speed_only:
  assumes "powerUp.type u = SLOW"
  shows "length (balls (snd (activatePowerUp u g))) = length (balls g) \<and>
     (\<forall>i < length (balls g).
        balls (snd (activatePowerUp u g)) ! i =
          (balls g ! i)\<lparr>ball.speed := max BASE_SPEED (ball.speed (balls g ! i) * (7 / 10))\<rparr> \<and>
        ball.dx (balls (snd (activatePowerUp u g)) ! i) = ball.dx (balls g ! i) \<and>
        ball.dy (balls (snd (activatePowerUp u g)) ! i) = ball.dy (balls g ! i) \<and>
        Ball_update dt (balls (snd (activatePowerUp u g)) ! i) =
          (Ball_update dt (balls g ! i))
             \<lparr>ball.speed := max BASE_SPEED (ball.speed (balls g ! i) * (7 / 10))\<rparr>)"
  by (simp add: activatePowerUp_SLOW_balls [OF assms] slowBall_def Ball_update_speed)

theorem slow_changes_speed_only_witness:
  "powerUp.type (PowerUp 950 1015 SLOW) = SLOW \<and>
   length (balls (gapGame\<lparr>balls := [increaseSpeed 2 (fallingBall 382 84)]\<rparr>)) = 1 \<and>
   ball.speed (increaseSpeed 2 (fallingBall 382 84)) = 800 \<and>
   ball.speed (balls (snd (activatePowerUp (PowerUp 950 1015 SLOW)
      (gapGame\<lparr>balls := [increaseSpeed 2 (fallingBall 382 84)]\<rparr>))) ! 0) = 560 \<and>
   ball.dy (balls (snd (activatePowerUp (PowerUp 950 1015 SLOW)
      (gapGame\<lparr>balls := [increaseSpeed 2 (fallingBall 382 84)]\<rparr>))) ! 0)
     = ball.dy (increaseSpeed 2 (fallingBall 382 84))"
proof -
  have t: "powerUp.type (PowerUp 950 1015 SLOW) = SLOW"
    by (simp add: PowerUp_def)
  have s: "ball.speed (increaseSpeed 2 (fallingBall 382 84)) = 800"
    by (simp add: increaseSpeed_speed fallingBall_def Ball_def consts_defs)
  from slow_changes_speed_only [OF t,
      of "gapGame\<lparr>balls := [increaseSpeed 2 (fallingBall 382 84)]\<rparr>"] t s
  show ?thesis by (simp add: BASE_SPEED_def)
qed

subsection \<open>The speed cap across a collision pass\<close>

lemma resolveBallBrick_speed: "ball.speed (resolveBallBrick b k col) = ball.speed b"
  by (simp add: resolveBallBrick_def split: side.split)

lemma brickCollision_capped: "capped b \<Longrightarrow> capped (fst (brickCollision b i col g))"
  by (simp add: capped_def brickCollision_def Let_def split_beta increaseSpeed_cap
      resolveBallBrick_speed)

lemma brickLoop_capped: "capped b \<Longrightarrow> capped (fst (brickLoop b idxs g))"
  by (induction idxs) (simp_all add: brickCollision_capped split: option.split)

lemma paddleStep_capped: "capped b \<Longrightarrow> capped (fst (paddleStep b g))"
  by (simp add: capped_def paddleStep_def Let_def split_beta resolveBallPaddle_cap
      split: option.split)

lemma enemyDeflect_capped: "capped b \<Longrightarrow> capped (fst (enemyDeflect e b g))"
  by (simp add: capped_def enemyDeflect_def deflectBall_def Let_def split_beta)

lemma enemyLoop_capped: "capped b \<Longrightarrow> capped (fst (enemyLoop b es g))"
  by (induction es arbitrary: b g) (simp_all add: enemyDeflect_capped Let_def split_beta)

lemma ballCollisions_capped: "capped b \<Longrightarrow> capped (fst (ballCollisions act b g))"
  by (simp add: ballCollisions_def Let_def split_beta enemyLoop_capped paddleStep_capped
      brickLoop_capped)

lemma ballsLoop_capped:
  "list_all capped bs \<Longrightarrow> list_all capped (fst (ballsLoop act bs g))"
  by (induction bs arbitrary: g) (simp_all add: Let_def split_beta ballCollisions_capped)

lemma map_slowBall_capped: "list_all capped bs \<Longrightarrow> list_all capped (map slowBall bs)"
  by (induction bs) (simp_all add: capped_def slowBall_cap)

lemma spawnExtraBalls_capped:
  "list_all capped (balls g) \<Longrightarrow> list_all capped (balls (spawnExtraBalls g))"
  by (cases "balls g")
     (simp_all add: spawnExtraBalls_def capped_def setVelocityAngle_def Ball_def Let_def
       BASE_SPEED_def MAX_SPEED_def)

lemma activatePowerUp_capped:
  "list_all capped (balls g) \<Longrightarrow> list_all capped (balls (snd (activatePowerUp u g)))"
  by (cases "powerUp.type u")
     (simp_all add: activatePowerUp_def Let_def play_def spawnExtraBalls_capped
       map_slowBall_capped)

lemma powerUpsLoop_capped:
  "list_all capped (balls g) \<Longrightarrow> list_all capped (balls (snd (powerUpsLoop us g)))"
  by (induction us arbitrary: g) (simp_all add: Let_def split_beta activatePowerUp_capped)

lemma laserEnemies_balls: "balls (snd (snd (laserEnemies l es g))) = balls g"
  by (induction es arbitrary: l g) (simp_all add: Let_def split_beta play_def)

lemma lasersLoop_balls: "balls (snd (snd (lasersLoop ls es g))) = balls g"
  by (induction ls arbitrary: es g) (simp_all add: Let_def split_beta laserEnemies_balls)

text \<open>A whole collision pass keeps every ball of the game at or below the cap.\<close>

lemma checkCollisions_capped:
  "list_all capped (balls g) \<Longrightarrow> list_all capped (balls (checkCollisions g))"
  by (simp add: checkCollisions_def Let_def split_beta lasersLoop_balls powerUpsLoop_capped
      ballsLoop_capped)

subsection \<open>The brick loop of one ball\<close>

lemma brickCollision_unfold:
  "brickCollision b i col g =
     (if fst (hit (bricks g ! i)) then
        (if speedIncreaseThreshold g \<noteq> 0
              \<and> (bricksDestroyed g + 1) mod speedIncreaseThreshold g = 0
         then increaseSpeed (105 / 100) (resolveBallBrick b (bricks g ! i) col)
         else resolveBallBrick b (bricks g ! i) col,
         g\<lparr>bricks := (bricks g)[i := snd (hit (bricks g ! i))],
           score := score g + brick.score (snd (hit (bricks g ! i))),
           bricksDestroyed := bricksDestroyed g + 1,
           rix := Suc (rix g),
           sounds := sounds g @ [(''BRICK_HIT'', 8 / 10 + rnd g (rix g) * (4 / 10))]\<rparr>)
      else
        (resolveBallBrick b (bricks g ! i) col,
         g\<lparr>bricks := (bricks g)[i := snd (hit (bricks g ! i))],
           sounds := sounds g @ [(''BRICK_HIT'', 6 / 10)]\<rparr>))"
proof (cases "fst (hit (bricks g ! i))")
  case True
  then have "\<not> canDropPowerUp (snd (hit (bricks g ! i)))"
    by (simp add: canDropPowerUp_def hit_destroyed_inactive)
  with True show ?thesis
    by (simp add: brickCollision_def Let_def random_def play_def split_beta)
next
  case False
  then show ?thesis
    by (simp add: brickCollision_def Let_def random_def play_def split_beta)
qed

lemma brickCollision_powerUps: "powerUps (snd (brickCollision b i col g)) = powerUps g"
  by (simp add: brickCollision_unfold)

lemma brickCollision_bricks:
  "bricks (snd (brickCollision b j col g)) = (bricks g)[j := snd (hit (bricks g ! j))]"
  by (simp add: brickCollision_unfold)

lemma brickCollision_sounds:
  "length (sounds (snd (brickCollision b j col g))) = Suc (length (sounds g))"
  by (simp add: brickCollision_unfold)



text \<open>The snapshot lists the active bricks, each once, in storage order.\<close>

lemma getActiveBricks_set:
  "set (getActiveBricks g) = {i. i < length (bricks g) \<and> brick.active (bricks g ! i)}"
  by (auto simp add: getActiveBricks_def)

lemma getActiveBricks_sorted:
  "sorted_wrt (<) (getActiveBricks g) \<and> distinct (getActiveBricks g)"
  by (simp add: getActiveBricks_def sorted_wrt_filter)

text \<open>Whatever the snapshot holds, one ball makes at most one \<open>BRICK_HIT\<close> sound in a pass.\<close>

lemma brickLoop_sounds_le:
  "length (sounds (snd (brickLoop b idxs g))) \<le> Suc (length (sounds g))"
  by (induction idxs) (simp_all add: brickCollision_sounds split: option.split)

lemma hit_Single:
  "hit (Brick bx by Single) = (True, (Brick bx by Single)\<lparr>hits := 0, brick.active := False\<rparr>)"
  by (simp add: hit_def updateColor_def Brick_def initType_def Let_def BRICK_COLORS_def)






subsection \<open>Power-ups are never spawned\<close>

lemma brickLoop_powerUps: "powerUps (snd (brickLoop b idxs g)) = powerUps g"
  by (induction idxs) (simp_all add: brickCollision_powerUps split: option.split)

lemma paddleStep_powerUps: "powerUps (snd (paddleStep b g)) = powerUps g"
  by (simp add: paddleStep_def Let_def random_def play_def split_beta split: option.split)

lemma enemyLoop_powerUps: "powerUps (snd (enemyLoop b es g)) = powerUps g"
  by (induction es arbitrary: b g)
     (simp_all add: enemyDeflect_def Let_def random_def play_def split_beta)

lemma ballCollisions_powerUps: "powerUps (snd (ballCollisions act b g)) = powerUps g"
  by (simp add: ballCollisions_def Let_def split_beta enemyLoop_powerUps paddleStep_powerUps
      brickLoop_powerUps)

lemma ballsLoop_powerUps: "powerUps (snd (ballsLoop act bs g)) = powerUps g"
  by (induction bs arbitrary: g) (simp_all add: Let_def split_beta ballCollisions_powerUps)

lemma powerUpsLoop_length: "length (fst (powerUpsLoop us g)) = length us"
  by (induction us arbitrary: g) (simp_all add: Let_def split_beta)

lemma laserEnemies_powerUps: "powerUps (snd (snd (laserEnemies l es g))) = powerUps g"
  by (induction es arbitrary: l g) (simp_all add: Let_def split_beta play_def)

lemma lasersLoop_powerUps: "powerUps (snd (snd (lasersLoop ls es g))) = powerUps g"
  by (induction ls arbitrary: es g) (simp_all add: Let_def split_beta laserEnemies_powerUps)

text \<open>
  For every state and every stream of random numbers, a collision pass leaves the number
  of power-ups as it was: \<open>canDropPowerUp\<close> is asked after \<open>hit\<close> has cleared \<open>active\<close>.
\<close>

lemma checkCollisions_powerUps_length:
  "length (powerUps (checkCollisions g)) = length (powerUps g)"
  by (simp add: checkCollisions_def Let_def split_beta lasersLoop_powerUps ballsLoop_powerUps
      powerUpsLoop_length)

lemma getActiveBricks_dropGame: "getActiveBricks dropGame = [0]"
  by (simp add: getActiveBricks_def dropGame_def Game_def Brick_def initType_def)

lemma drop_hit:
  "checkBallBrick (fallingBall 286 58) (Brick 192 60 Single) =
     Some \<lparr>side = Top, rect_collision.dx = 0, rect_collision.dy = - 2, distance = 2\<rparr>"
  by (simp add: checkBallBrick_def checkCircleRect_def Brick_getBounds_def Brick_def
      initType_def fallingBall_def Ball_def consts_defs Let_def)

lemma dropGame_fields:
  "balls dropGame = [fallingBall 286 58]" "enemies dropGame = []"
  "lasers dropGame = []" "bricks dropGame = [Brick 192 60 Single]"
  "powerUps dropGame = []" "paddle dropGame = Paddle" "rnd dropGame = (\<lambda>n. 1 / 10)"
  by (simp_all add: dropGame_def Game_def)

lemma drop_brickLoop:
  "brickLoop (fallingBall 286 58) [0] dropGame =
     ((fallingBall 286 58)\<lparr>ball.dy := - 400, ball.y := 56\<rparr>,
      dropGame\<lparr>bricks := [(Brick 192 60 Single)\<lparr>hits := 0, brick.active := False\<rparr>],
               score := 10, bricksDestroyed := 1, rix := 1,
               sounds := [(''BRICK_HIT'', 84 / 100)]\<rparr>)"
proof -
  have r: "resolveBallBrick (fallingBall 286 58) (Brick 192 60 Single)
      \<lparr>side = Top, rect_collision.dx = 0, rect_collision.dy = - 2, distance = 2\<rparr>
      = (fallingBall 286 58)\<lparr>ball.dy := - 400, ball.y := 56\<rparr>"
    by (simp add: resolveBallBrick_def fallingBall_def Ball_def Brick_def initType_def
        consts_defs)
  have c: "\<not> canDropPowerUp ((Brick 192 60 Single)\<lparr>hits := 0, brick.active := False\<rparr>)"
    by (simp add: canDropPowerUp_def)
  have s: "brick.score ((Brick 192 60 Single)\<lparr>hits := 0, brick.active := False\<rparr>) = 10"
    by (simp add: Brick_def initType_def)
  show ?thesis
    by (simp add: dropGame_fields drop_hit brickCollision_def hit_Single r c s Let_def
        random_def play_def)
       (simp add: dropGame_def Game_def)
qed

lemma drop_no_paddle:
  "checkBallPaddle ((fallingBall 286 58)\<lparr>ball.dy := - 400, ball.y := 56\<rparr>) Paddle = None"
  by (simp add: checkBallPaddle_def fallingBall_def Ball_def Paddle_def checkAABB_def
      Ball_getBounds_def Paddle_getBounds_def consts_defs)

lemma dropGame_pass:
  "checkCollisions dropGame =
     dropGame\<lparr>balls := [(fallingBall 286 58)\<lparr>ball.dy := - 400, ball.y := 56\<rparr>],
              bricks := [(Brick 192 60 Single)\<lparr>hits := 0, brick.active := False\<rparr>],
              score := 10, bricksDestroyed := 1, rix := 1,
              sounds := [(''BRICK_HIT'', 84 / 100)]\<rparr>"
proof -
  have l: "ball.state (fallingBall 286 58) = LAUNCHED"
    by (simp add: fallingBall_def)
  have b: "ballCollisions [0] (fallingBall 286 58) dropGame =
     ((fallingBall 286 58)\<lparr>ball.dy := - 400, ball.y := 56\<rparr>,
      dropGame\<lparr>bricks := [(Brick 192 60 Single)\<lparr>hits := 0, brick.active := False\<rparr>],
               score := 10, bricksDestroyed := 1, rix := 1,
               sounds := [(''BRICK_HIT'', 84 / 100)]\<rparr>)"
    unfolding ballCollisions_def drop_brickLoop
    by (simp add: l paddleStep_def dropGame_fields drop_no_paddle)
  show ?thesis
    unfolding checkCollisions_def getActiveBricks_dropGame
    by (simp add: dropGame_fields b)
qed

text \<open>
  Claim C1. A destroyed destructible brick should drop a power-up at its bottom centre
  whenever the random draw is below \<open>DROP_CHANCE\<close>. In the code it never does. In
  \<open>dropGame\<close> a ball destroys an active single-hit brick and every random draw is 0.1:
  the pass scores the brick, counts it, and leaves the power-up list empty, where the
  claim has one power-up at \<open>(286, 108)\<close>.
\<close>

theorem destroyed_brick_drops_nothing:
  "map brick.active (bricks dropGame) = [True] \<and>
   map indestructible (bricks dropGame) = [False] \<and>
   map brick.active (bricks (checkCollisions dropGame)) = [False] \<and>
   score (checkCollisions dropGame) = 10 \<and>
   bricksDestroyed (checkCollisions dropGame) = 1 \<and>
   rnd dropGame (rix (checkCollisions dropGame)) < DROP_CHANCE \<and>
   powerUps (checkCollisions dropGame) = []"
  unfolding dropGame_pass
  by (simp add: dropGame_fields Brick_def initType_def DROP_CHANCE_def)

subsection \<open>The brick invariant across a collision pass\<close>

lemma list_all_update:
  "list_all P xs \<Longrightarrow> (i < length xs \<Longrightarrow> P v) \<Longrightarrow> list_all P (xs[i := v])"
  by (induction xs arbitrary: i) (auto split: nat.splits)

lemma brickCollision_brickInv:
  assumes "list_all brickInv (bricks g)" and "checkBallBrick b (bricks g ! i) = Some col"
  shows "list_all brickInv (bricks (snd (brickCollision b i col g)))"
proof -
  have "brickInv (snd (hit (bricks g ! i)))" if "i < length (bricks g)"
  proof -
    from that assms(1) have "brickInv (bricks g ! i)"
      by (simp add: list_all_length)
    then show ?thesis
      using checkBallBrick_active [OF assms(2)] by (rule hit_brickInv)
  qed
  with assms(1) show ?thesis
    by (simp add: brickCollision_bricks list_all_update)
qed

lemma brickLoop_brickInv:
  "list_all brickInv (bricks g) \<Longrightarrow> list_all brickInv (bricks (snd (brickLoop b idxs g)))"
  by (induction idxs) (simp_all add: brickCollision_brickInv split: option.split)

text \<open>The loop of one ball calls \<open>hit\<close> on at most one brick, and only on an active one.\<close>

lemma brickLoop_hits_active:
  "bricks (snd (brickLoop b idxs g)) = bricks g \<or>
   (\<exists>j. brick.active (bricks g ! j) \<and>
        bricks (snd (brickLoop b idxs g)) = (bricks g)[j := snd (hit (bricks g ! j))])"
proof (induction idxs)
  case Nil
  then show ?case by simp
next
  case (Cons i idxs)
  show ?case
  proof (cases "checkBallBrick b (bricks g ! i)")
    case None
    with Cons show ?thesis by simp
  next
    case (Some col)
    then have "brick.active (bricks g ! i)" by (rule checkBallBrick_active)
    with Some show ?thesis
      by (auto simp add: brickCollision_bricks)
  qed
qed

lemma paddleStep_bricks: "bricks (snd (paddleStep b g)) = bricks g"
  by (simp add: paddleStep_def Let_def random_def play_def split_beta split: option.split)

lemma enemyLoop_bricks: "bricks (snd (enemyLoop b es g)) = bricks g"
  by (induction es arbitrary: b g)
     (simp_all add: enemyDeflect_def Let_def random_def play_def split_beta)

lemma ballCollisions_brickInv:
  "list_all brickInv (bricks g)
     \<Longrightarrow> list_all brickInv (bricks (snd (ballCollisions act b g)))"
  by (simp add: ballCollisions_def Let_def split_beta enemyLoop_bricks paddleStep_bricks
      brickLoop_brickInv)

lemma ballsLoop_brickInv:
  "list_all brickInv (bricks g) \<Longrightarrow> list_all brickInv (bricks (snd (ballsLoop act bs g)))"
  by (induction bs arbitrary: g) (simp_all add: Let_def split_beta ballCollisions_brickInv)

lemma spawnExtraBalls_bricks: "bricks (spawnExtraBalls g) = bricks g"
  by (cases "balls g") (simp_all add: spawnExtraBalls_def Let_def)

lemma activatePowerUp_bricks: "bricks (snd (activatePowerUp u g)) = bricks g"
  by (cases "powerUp.type u")
     (simp_all add: activatePowerUp_def Let_def play_def spawnExtraBalls_bricks)

lemma powerUpsLoop_bricks: "bricks (snd (powerUpsLoop us g)) = bricks g"
  by (induction us arbitrary: g) (simp_all add: Let_def split_beta activatePowerUp_bricks)

lemma laserEnemies_bricks: "bricks (snd (snd (laserEnemies l es g))) = bricks g"
  by (induction es arbitrary: l g) (simp_all add: Let_def split_beta play_def)

lemma lasersLoop_bricks: "bricks (snd (snd (lasersLoop ls es g))) = bricks g"
  by (induction ls arbitrary: es g) (simp_all add: Let_def split_beta laserEnemies_bricks)

lemma checkCollisions_brickInv:
  "list_all brickInv (bricks g) \<Longrightarrow> list_all brickInv (bricks (checkCollisions g))"
  by (simp add: checkCollisions_def Let_def split_beta lasersLoop_bricks powerUpsLoop_bricks
      ballsLoop_brickInv)

text \<open>
  Claim C4, amended. A call of \<open>hit\<close> lowers \<open>hits\<close> of a destructible brick by exactly
  one and leaves an indestructible brick as it is; it reports destruction exactly when the
  brick is destructible with at most one hit left, and an inactive brick stays inactive.
  \<open>hit\<close> has no guard on \<open>active\<close>; that \<open>hits\<close> stays at or above 0 rests on the brick
  invariant and on the caller. Every brick the constructor makes satisfies the invariant
  (indestructible, or \<open>hits \<ge> 0\<close> with \<open>hits \<ge> 1\<close> while active); \<open>hit\<close> on an active brick
  keeps it, so \<open>hits\<close> is not negative afterwards; \<open>checkBallBrick\<close> reports a collision
  for active bricks only, the brick loop of a ball calls \<open>hit\<close> on at most one brick and
  only on an active one, and a whole collision pass keeps the invariant for every brick.
\<close>

theorem hit_decrements:
  "(\<not> indestructible k \<longrightarrow> hits (snd (hit k)) = hits k - 1) \<and>
   (indestructible k \<longrightarrow> hit k = (False, k)) \<and>
   (fst (hit k) \<longleftrightarrow> \<not> indestructible k \<and> hits k \<le> 1) \<and>
   (\<not> brick.active k \<longrightarrow> \<not> brick.active (snd (hit k))) \<and>
   brickInv (Brick bx by t) \<and>
   (brickInv k \<and> brick.active k \<longrightarrow> brickInv (snd (hit k))) \<and>
   (brickInv k \<and> brick.active k \<and> \<not> indestructible k \<longrightarrow> 0 \<le> hits (snd (hit k))) \<and>
   (checkBallBrick b k \<noteq> None \<longrightarrow> brick.active k) \<and>
   (bricks (snd (brickLoop b idxs g)) = bricks g \<or>
    (\<exists>j. brick.active (bricks g ! j) \<and>
         bricks (snd (brickLoop b idxs g)) = (bricks g)[j := snd (hit (bricks g ! j))])) \<and>
   (list_all brickInv (bricks g) \<longrightarrow> list_all brickInv (bricks (checkCollisions g)))"
proof (intro conjI impI)
  show "hits (snd (hit k)) = hits k - 1" if "\<not> indestructible k"
    using that by (simp add: hit_def updateColor_def Let_def)
  show "hit k = (False, k)" if "indestructible k"
    using that by (rule hit_indestructible)
  show "fst (hit k) \<longleftrightarrow> \<not> indestructible k \<and> hits k \<le> 1"
    by (auto simp add: hit_def updateColor_def Let_def)
  show "\<not> brick.active (snd (hit k))" if "\<not> brick.active k"
    using that by (simp add: hit_def updateColor_def Let_def)
  show "brickInv (Brick bx by t)" by (rule Brick_brickInv)
  show "brickInv (snd (hit k))" if "brickInv k \<and> brick.active k"
    using that by (simp add: hit_brickInv)
  show "0 \<le> hits (snd (hit k))" if "brickInv k \<and> brick.active k \<and> \<not> indestructible k"
    using that by (simp add: hit_nonneg)
  show "brick.active k" if "checkBallBrick b k \<noteq> None"
    using that by (auto dest: checkBallBrick_active)
  show "bricks (snd (brickLoop b idxs g)) = bricks g \<or>
    (\<exists>j. brick.active (bricks g ! j) \<and>
         bricks (snd (brickLoop b idxs g)) = (bricks g)[j := snd (hit (bricks g ! j))])"
    by (rule brickLoop_hits_active)
  show "list_all brickInv (bricks (checkCollisions g))" if "list_all brickInv (bricks g)"
    using that by (rule checkCollisions_brickInv)
qed

theorem hit_decrements_witness:
  "list_all brickInv (bricks dropGame) \<and>
   list_all brickInv (bricks (checkCollisions dropGame)) \<and>
   map hits (bricks dropGame) = [1] \<and>
   map hits (bricks (checkCollisions dropGame)) = [0] \<and>
   checkBallBrick (fallingBall 286 58) (Brick 192 60 Single) =
     Some \<lparr>side = Top, rect_collision.dx = 0, rect_collision.dy = - 2, distance = 2\<rparr> \<and>
   brickInv (Brick 0 0 Double) \<and> brick.active (Brick 0 0 Double) \<and>
   hits (Brick 0 0 Double) = 2 \<and> hits (snd (hit (Brick 0 0 Double))) = 1 \<and>
   brick.active (snd (hit (Brick 0 0 Double)))"
proof -
  have d: "bricks dropGame = [Brick 192 60 Single]"
    by (simp add: dropGame_fields)
  have i: "list_all brickInv (bricks dropGame)"
    by (simp add: d Brick_brickInv)
  have h: "map hits (bricks (checkCollisions dropGame)) = [0]"
    "map hits (bricks dropGame) = [1]"
    by (simp_all add: dropGame_pass d Brick_def initType_def)
  have f: "\<not> indestructible (Brick 0 0 Double)" "brick.active (Brick 0 0 Double)"
    "hits (Brick 0 0 Double) = 2"
    by (simp_all add: Brick_def initType_def)
  from hit_decrements [of "Brick 0 0 Double" 0 0 Double "fallingBall 286 58" "[0]" dropGame]
    i h f drop_hit
  show ?thesis
    by (simp add: hit_def updateColor_def Let_def)
qed

subsection \<open>An enemy destroyed by a laser\<close>

text \<open>The guards that the detection functions do have.\<close>

lemma checkBallBrick_inactive: "\<not> brick.active k \<Longrightarrow> checkBallBrick b k = None"
  by (simp add: checkBallBrick_def)

lemma checkBallEnemy_invisible: "\<not> visible e \<Longrightarrow> \<not> checkBallEnemy b e"
  by (simp add: checkBallEnemy_def checkBallCollision_def)

lemma checkLaserEnemy_invisible: "\<not> visible e \<Longrightarrow> \<not> checkLaserEnemy lx ly e"
  by (simp add: checkLaserEnemy_def checkLaserCollision_def)

text \<open>\<open>active\<close> plays no part in the ball-enemy test.\<close>

lemma checkBallEnemy_ignores_active:
  "checkBallEnemy b (e\<lparr>enemy.active := a\<rparr>) = checkBallEnemy b e"
  by (simp add: checkBallEnemy_def checkBallCollision_def)

lemma no_paddle_90: "checkBallPaddle (fallingBall 120 90) Paddle = None"
  by (simp add: checkBallPaddle_def fallingBall_def Ball_def Paddle_def checkAABB_def
      Ball_getBounds_def Paddle_getBounds_def consts_defs)

lemma above_enemy: "\<not> checkBallEnemy (fallingBall 120 90) (Enemy 0 100 100)"
  by (simp add: checkBallEnemy_def checkBallCollision_def Ball_getBounds_def fallingBall_def
      Ball_def Enemy_def consts_defs ENEMY_WIDTH_def ENEMY_HEIGHT_def Let_def)

lemma laser_in_enemy:
  "enemy.active (Enemy 0 100 100) \<and> visible (Enemy 0 100 100) \<and>
   checkLaserEnemy 120 120 (Enemy 0 100 100)"
  by (simp add: checkLaserEnemy_def checkLaserCollision_def Enemy_def ENEMY_WIDTH_def
      ENEMY_HEIGHT_def)

lemma enemyGame_fields:
  "balls enemyGame = [fallingBall 120 90]" "enemies enemyGame = [Enemy 0 100 100]"
  "lasers enemyGame = [\<lparr>laser.x = 120, laser.y = 120\<rparr>]" "bricks enemyGame = []"
  "powerUps enemyGame = []" "paddle enemyGame = Paddle" "score enemyGame = 0"
  "sounds enemyGame = []" "rix enemyGame = 0" "rnd enemyGame = (\<lambda>n. 1 / 10)"
  by (simp_all add: enemyGame_def Game_def)

lemma enemyGame_ball:
  "ballCollisions [] (fallingBall 120 90) enemyGame = (fallingBall 120 90, enemyGame)"
  by (simp add: ballCollisions_def paddleStep_def enemyGame_fields no_paddle_90 above_enemy)

lemma enemyGame_pass:
  "checkCollisions enemyGame =
     enemyGame\<lparr>enemies := [(Enemy 0 100 100)\<lparr>enemy.active := False\<rparr>],
               lasers := [\<lparr>laser.x = 120, laser.y = - 100\<rparr>],
               score := 50, sounds := [(''ENEMY_HIT'', 1)]\<rparr>"
proof -
  have a: "getActiveBricks enemyGame = []"
    by (simp add: getActiveBricks_def enemyGame_fields)
  have l: "laserEnemies \<lparr>laser.x = 120, laser.y = 120\<rparr> [Enemy 0 100 100] g =
      (\<lparr>laser.x = 120, laser.y = - 100\<rparr>, [(Enemy 0 100 100)\<lparr>enemy.active := False\<rparr>],
       play ''ENEMY_HIT'' 1 (g\<lparr>score := score g + 50\<rparr>))" for g
    using laser_in_enemy by (simp add: Enemy_hit_def)
  show ?thesis
    unfolding checkCollisions_def a
    by (simp add: enemyGame_fields enemyGame_ball l play_def del: laserEnemies.simps)
qed

lemma Ball_update_120_90: "Ball_update (1 / 60) (fallingBall 120 90) = (fallingBall 120 90)\<lparr>trail := [(120, 90)], ball.y := 290 / 3\<rparr>"
proof -
  have s: "storeTrail (fallingBall 120 90) = (fallingBall 120 90)\<lparr>trail := [(120, 90)]\<rparr>"
    by (simp add: storeTrail_def fallingBall_def Ball_def Let_def)
  have m: "moveBall (1 / 60) ((fallingBall 120 90)\<lparr>trail := [(120, 90)]\<rparr>) = (fallingBall 120 90)\<lparr>trail := [(120, 90)], ball.y := 290 / 3\<rparr>"
    by (simp add: moveBall_def fallingBall_def Ball_def)
  have w: "sideWalls ((fallingBall 120 90)\<lparr>trail := [(120, 90)], ball.y := 290 / 3\<rparr>) = (fallingBall 120 90)\<lparr>trail := [(120, 90)], ball.y := 290 / 3\<rparr>"
    by (simp add: sideWalls_def fallingBall_def Ball_def consts_defs)
  have t: "topWall ((fallingBall 120 90)\<lparr>trail := [(120, 90)], ball.y := 290 / 3\<rparr>) = (fallingBall 120 90)\<lparr>trail := [(120, 90)], ball.y := 290 / 3\<rparr>"
    by (simp add: topWall_def fallingBall_def Ball_def consts_defs)
  have f: "fellBelow ((fallingBall 120 90)\<lparr>trail := [(120, 90)], ball.y := 290 / 3\<rparr>) = (fallingBall 120 90)\<lparr>trail := [(120, 90)], ball.y := 290 / 3\<rparr>"
    by (simp add: fellBelow_def fallingBall_def Ball_def consts_defs)
  have l: "ball.state (fallingBall 120 90) = LAUNCHED"
    by (simp add: fallingBall_def)
  show ?thesis
    by (simp add: Ball_update_def l s m w t f)
qed

lemma enemyNext_eq:
  "enemyNext =
     enemyGame\<lparr>balls := [(fallingBall 120 90)\<lparr>trail := [(120, 90)], ball.y := 290 / 3\<rparr>],
               enemies := [(Enemy 0 100 100)\<lparr>enemy.active := False\<rparr>],
               lasers := [\<lparr>laser.x = 120, laser.y = - 100\<rparr>],
               score := 50, sounds := [(''ENEMY_HIT'', 1)]\<rparr>"
  by (simp add: enemyNext_def enemyGame_pass enemyGame_fields Ball_update_120_90)

lemma moved_ball:
  "ball.x ((fallingBall 120 90)\<lparr>trail := [(120, 90)], ball.y := 290 / 3\<rparr>) = 120"
  "ball.y ((fallingBall 120 90)\<lparr>trail := [(120, 90)], ball.y := 290 / 3\<rparr>) = 290 / 3"
  "size ((fallingBall 120 90)\<lparr>trail := [(120, 90)], ball.y := 290 / 3\<rparr>) = 8"
  "ball.dy ((fallingBall 120 90)\<lparr>trail := [(120, 90)], ball.y := 290 / 3\<rparr>) = 400"
  "ball.speed ((fallingBall 120 90)\<lparr>trail := [(120, 90)], ball.y := 290 / 3\<rparr>) = 400"
  "ball.active ((fallingBall 120 90)\<lparr>trail := [(120, 90)], ball.y := 290 / 3\<rparr>)"
  "ball.state ((fallingBall 120 90)\<lparr>trail := [(120, 90)], ball.y := 290 / 3\<rparr>) = LAUNCHED"
  by (simp_all add: fallingBall_def Ball_def consts_defs)

lemma dead_enemy:
  "visible ((Enemy 0 100 100)\<lparr>enemy.active := False\<rparr>)"
  "\<not> enemy.active ((Enemy 0 100 100)\<lparr>enemy.active := False\<rparr>)"
  "enemy.x ((Enemy 0 100 100)\<lparr>enemy.active := False\<rparr>) = 100"
  "enemy.y ((Enemy 0 100 100)\<lparr>enemy.active := False\<rparr>) = 100"
  "enemy.width ((Enemy 0 100 100)\<lparr>enemy.active := False\<rparr>) = 40"
  "enemy.height ((Enemy 0 100 100)\<lparr>enemy.active := False\<rparr>) = 40"
  by (simp_all add: Enemy_def ENEMY_WIDTH_def ENEMY_HEIGHT_def)

lemma dead_enemy_collides: "checkBallEnemy ((fallingBall 120 90)\<lparr>trail := [(120, 90)], ball.y := 290 / 3\<rparr>) ((Enemy 0 100 100)\<lparr>enemy.active := False\<rparr>)"
  by (simp add: checkBallEnemy_def checkBallCollision_def Ball_getBounds_def Let_def
      moved_ball dead_enemy)

lemma no_paddle_moved: "checkBallPaddle ((fallingBall 120 90)\<lparr>trail := [(120, 90)], ball.y := 290 / 3\<rparr>) Paddle = None"
  by (simp add: checkBallPaddle_def Paddle_def checkAABB_def
      Ball_getBounds_def Paddle_getBounds_def consts_defs moved_ball)

lemma enemyNext_fields:
  "balls enemyNext = [(fallingBall 120 90)\<lparr>trail := [(120, 90)], ball.y := 290 / 3\<rparr>]" "enemies enemyNext = [(Enemy 0 100 100)\<lparr>enemy.active := False\<rparr>]"
  "lasers enemyNext = [\<lparr>laser.x = 120, laser.y = - 100\<rparr>]" "bricks enemyNext = []"
  "powerUps enemyNext = []" "paddle enemyNext = Paddle" "score enemyNext = 50"
  "sounds enemyNext = [(''ENEMY_HIT'', 1)]" "rix enemyNext = 0"
  "rnd enemyNext = (\<lambda>n. 1 / 10)"
  by (simp_all add: enemyNext_eq enemyGame_fields)

lemma enemyNext_deflect:
  "enemyDeflect ((Enemy 0 100 100)\<lparr>enemy.active := False\<rparr>) ((fallingBall 120 90)\<lparr>trail := [(120, 90)], ball.y := 290 / 3\<rparr>) g
     = (deflectBall (rnd g (rix g)) (rnd g (Suc (rix g))) ((Enemy 0 100 100)\<lparr>enemy.active := False\<rparr>) ((fallingBall 120 90)\<lparr>trail := [(120, 90)], ball.y := 290 / 3\<rparr>),
        g\<lparr>rix := Suc (Suc (rix g))\<rparr>)"
  by (simp add: enemyDeflect_def moved_ball dead_enemy random_def Let_def)

lemma enemyNext_ball:
  "ballCollisions [] ((fallingBall 120 90)\<lparr>trail := [(120, 90)], ball.y := 290 / 3\<rparr>) enemyNext
     = (deflectBall (1 / 10) (1 / 10) ((Enemy 0 100 100)\<lparr>enemy.active := False\<rparr>) ((fallingBall 120 90)\<lparr>trail := [(120, 90)], ball.y := 290 / 3\<rparr>),
        play ''WALL_HIT'' (3 / 2) (enemyNext\<lparr>rix := 2\<rparr>))"
  unfolding ballCollisions_def
  by (simp add: moved_ball paddleStep_def enemyNext_fields no_paddle_moved dead_enemy_collides
      enemyNext_deflect numeral_2_eq_2)

lemma enemyNext_pass:
  "checkCollisions enemyNext =
     enemyNext\<lparr>balls := [deflectBall (1 / 10) (1 / 10) ((Enemy 0 100 100)\<lparr>enemy.active := False\<rparr>) ((fallingBall 120 90)\<lparr>trail := [(120, 90)], ball.y := 290 / 3\<rparr>)],
               rix := 2, sounds := [(''ENEMY_HIT'', 1), (''WALL_HIT'', 3 / 2)]\<rparr>"
proof -
  have a: "getActiveBricks enemyNext = []"
    by (simp add: getActiveBricks_def enemyNext_fields)
  have l: "\<not> checkLaserEnemy 120 (- 100) ((Enemy 0 100 100)\<lparr>enemy.active := False\<rparr>)"
    by (simp add: checkLaserEnemy_def checkLaserCollision_def dead_enemy)
  show ?thesis
    unfolding checkCollisions_def a
    by (simp add: enemyNext_fields enemyNext_ball l play_def dead_enemy)
qed

text \<open>
  Claim C2. No collision is detected against an inactive entity; in particular an enemy
  destroyed by a laser deflects no ball afterwards. In the code it does. In \<open>enemyGame\<close>
  the pass destroys the enemy with the laser (score 50, \<open>active\<close> cleared). One ball
  update later the ball, still falling, overlaps the dead enemy: the next pass detects the
  collision, plays the deflection sound and turns the ball upward.
\<close>

theorem dead_enemy_deflects:
  "map enemy.active (enemies enemyGame) = [True] \<and>
   map enemy.active (enemies (checkCollisions enemyGame)) = [False] \<and>
   score (checkCollisions enemyGame) = 50 \<and>
   map enemy.active (enemies enemyNext) = [False] \<and>
   map ball.dy (balls enemyNext) = [400] \<and>
   map (checkBallEnemy (hd (balls enemyNext))) (enemies enemyNext) = [True] \<and>
   map ball.dy (balls (checkCollisions enemyNext))
     = [- \<bar>cos ((30 + 1 / 10 * 30) * (pi / 180)) * 400\<bar>] \<and>
   sounds (checkCollisions enemyNext) = [(''ENEMY_HIT'', 1), (''WALL_HIT'', 3 / 2)]"
proof -
  have d: "ball.dy (deflectBall (1 / 10) (1 / 10) ((Enemy 0 100 100)\<lparr>enemy.active := False\<rparr>) ((fallingBall 120 90)\<lparr>trail := [(120, 90)], ball.y := 290 / 3\<rparr>))
             = - \<bar>cos ((30 + 1 / 10 * 30) * (pi / 180)) * 400\<bar>"
    by (simp add: deflectBall_def dead_enemy moved_ball Let_def)
  have e: "enemy.active (Enemy 0 100 100)"
    by (simp add: Enemy_def)
  show ?thesis
    unfolding enemyNext_pass enemyGame_pass
    by (simp add: e d enemyNext_fields dead_enemy moved_ball dead_enemy_collides
        enemyGame_fields)
qed

end
